theory Spec2Isabelle
  imports Complex_Main "HOL-Library.Word"
begin

section \<open>JavaScript strings\<close>

text \<open>
  A JavaScript string is a sequence of 16-bit code units. The literals of the source are
  ASCII; \<open>lit\<close> embeds an Isabelle string literal code unit by code unit.
\<close>

type_synonym jschar = "16 word"
type_synonym jsstring = "jschar list"

definition lit :: "string \<Rightarrow> jsstring" where
  "lit s = map (\<lambda>c. of_nat (of_char c)) s"

text \<open>
  \<open>String.prototype.trim\<close> removes the code units of the ECMAScript productions
  WhiteSpace and LineTerminator from both ends.
\<close>

definition is_ws :: "jschar \<Rightarrow> bool" where
  "is_ws c = (c \<in> set [0x0009, 0x000A, 0x000B, 0x000C, 0x000D, 0x0020, 0x00A0, 0x1680,
     0x2000, 0x2001, 0x2002, 0x2003, 0x2004, 0x2005, 0x2006, 0x2007, 0x2008, 0x2009,
     0x200A, 0x2028, 0x2029, 0x202F, 0x205F, 0x3000, 0xFEFF])"

definition trim :: "jsstring \<Rightarrow> jsstring" where
  "trim s = rev (dropWhile is_ws (rev (dropWhile is_ws s)))"

definition startsWith :: "jsstring \<Rightarrow> jsstring \<Rightarrow> bool" where
  "startsWith s p = (take (length p) s = p)"

definition endsWith :: "jsstring \<Rightarrow> jsstring \<Rightarrow> bool" where
  "endsWith s p = (length p \<le> length s \<and> drop (length s - length p) s = p)"

text \<open>\<open>s.slice(a, b)\<close>: a negative index counts from the end, both are clamped.\<close>

definition slice :: "jsstring \<Rightarrow> int \<Rightarrow> int \<Rightarrow> jsstring" where
  "slice s a b =
     (let n = int (length s);
          lo = (if a < 0 then max (n + a) 0 else min a n);
          hi = (if b < 0 then max (n + b) 0 else min b n)
      in take (nat (hi - lo)) (drop (nat lo) s))"

text \<open>\<open>s.includes(p)\<close>: \<open>p\<close> occurs in \<open>s\<close> at some offset.\<close>

definition includes_js :: "jsstring \<Rightarrow> jsstring \<Rightarrow> bool" where
  "includes_js s p = list_ex (\<lambda>i. take (length p) (drop i s) = p) [0..<Suc (length s)]"

text \<open>\<open>a || b\<close> on an optional string: the empty string and \<open>undefined\<close> are falsy.\<close>

definition truthy :: "jsstring option \<Rightarrow> bool" where
  "truthy v = (case v of None \<Rightarrow> False | Some s \<Rightarrow> s \<noteq> [])"

definition orElse :: "jsstring option \<Rightarrow> jsstring option \<Rightarrow> jsstring option" where
  "orElse a b = (if truthy a then a else b)"

definition DQUOTE :: jsstring where "DQUOTE = lit [CHR 0x22]"
definition SQUOTE :: jsstring where "SQUOTE = lit [CHR 0x27]"

section \<open>Key sanitisation\<close>

text \<open>
  \<^verbatim>\<open>sanitizeKey\<close> of the generation service: \<open>undefined\<close> and the empty string give
  \<open>undefined\<close>; otherwise the key is trimmed and, when it starts and ends with the
  same quote character, \<open>slice(1, -1)\<close> is taken.
\<close>

definition sanitizeKey :: "jsstring option \<Rightarrow> jsstring option" where
  "sanitizeKey key =
     (if \<not> truthy key then None
      else let k = trim (the key) in
        if (startsWith k DQUOTE \<and> endsWith k DQUOTE) \<or> (startsWith k SQUOTE \<and> endsWith k SQUOTE)
        then Some (slice k 1 (- 1))
        else Some k)"

section \<open>Data model (types.ts)\<close>

datatype JobStatus = PENDING | PROCESSING | COMPLETED | FAILED

text \<open>A \<open>File\<close>: only its name and declared media type are read; the bytes are opaque.\<close>

record jsfile =
  name_file :: jsstring
  type_file :: jsstring

record VideoJob =
  id_job :: jsstring
  file_job :: jsfile
  status :: JobStatus
  progress :: "jsstring option"
  videoUrl :: "jsstring option"
  error :: "jsstring option"
  thumbnailUrl :: jsstring

datatype Resolution = R720p | R1080p

datatype AspectRatio = A16x9 | A9x16

record ProcessingConfig =
  prompt :: jsstring
  resolution :: Resolution
  aspectRatio :: AspectRatio

record VertexConfig =
  projectId :: jsstring
  location :: jsstring
  accessToken :: jsstring

section \<open>Values exchanged with the platform and the remote API\<close>

text \<open>
  A thrown value, as far as the code inspects it: \<open>name\<close>, \<open>message\<close>, \<open>status\<close>,
  \<open>code\<close> (a field is \<open>None\<close> when it is absent or not a number resp. string) and
  the text \<open>JSON.stringify\<close> gives for it at the catching site.
\<close>

record js_error =
  name_err :: jsstring
  message_err :: "jsstring option"
  status_err :: "int option"
  code_err :: "int option"
  json_err :: jsstring

text \<open>\<open>new Error(m)\<close> and \<open>new DOMException('Aborted', 'AbortError')\<close>.\<close>

definition newError :: "jsstring \<Rightarrow> js_error" where
  "newError m = \<lparr>name_err = lit ''Error'', message_err = Some m, status_err = None,
     code_err = None, json_err = lit ''{}''\<rparr>"

definition newAbortError :: js_error where
  "newAbortError = \<lparr>name_err = lit ''AbortError'', message_err = Some (lit ''Aborted''),
     status_err = None, code_err = Some 20, json_err = lit ''{}''\<rparr>"

text \<open>
  The payload of an operation: \<open>raiMediaFilteredReasons\<close> and, for each produced video,
  the value of \<open>video?.uri\<close>.
\<close>

record op_response =
  raiMediaFilteredReasons :: "jsstring list option"
  generatedVideos :: "jsstring option list option"

text \<open>
  A long-running operation. \<open>error_op\<close> is \<open>Some m\<close> when an error payload is present,
  \<open>m\<close> being its optional message; \<open>result_op\<close> is the legacy \<open>result\<close> field the code
  falls back to.
\<close>

record operation =
  name_op :: "jsstring option"
  done_op :: bool
  error_op :: "jsstring option option"
  response_op :: "op_response option"
  result_op :: "op_response option"

text \<open>The SDK client \<open>ai\<close>, by the options it was constructed with.\<close>

datatype client =
  VertexClient jsstring jsstring jsstring
  | ApiKeyClient jsstring

record request =
  model :: jsstring
  prompt_req :: jsstring
  imageBytes :: jsstring
  mimeType :: jsstring
  numberOfVideos :: nat
  resolution_req :: Resolution
  aspectRatio_req :: AspectRatio
  durationSeconds :: nat

text \<open>
  A parsed \<open>URL\<close>: its serialisation without the query, and the name-value pairs of
  \<open>searchParams\<close>. \<open>searchParams.set\<close> overwrites the first pair of that name and
  removes the others, or appends a pair.
\<close>

record url =
  base_url :: jsstring
  searchParams :: "(jsstring \<times> jsstring) list"

definition searchParams_set :: "jsstring \<Rightarrow> jsstring \<Rightarrow> url \<Rightarrow> url" where
  "searchParams_set n v u =
     (let ps = searchParams u in
      u\<lparr>searchParams :=
        (if list_ex (\<lambda>p. fst p = n) ps
         then takeWhile (\<lambda>p. fst p \<noteq> n) ps @ [(n, v)] @
              filter (\<lambda>p. fst p \<noteq> n) (tl (dropWhile (\<lambda>p. fst p \<noteq> n) ps))
         else ps @ [(n, v)])\<rparr>)"

datatype credentials_mode = omit

record http_response =
  ok :: bool
  statusText :: jsstring

type_synonym blob = "8 word list"

text \<open>
  What a run does that is visible outside it, in the order it happens: a progress report,
  the encoding of the image, a submission, a timer set by \<open>wait\<close>, a status check, a
  request made by \<open>fetch\<close> (with its URL, headers and \<open>credentials\<close> option).
\<close>

datatype event =
  EvProgress jsstring
  | EvEncode jsfile
  | EvSubmit client request
  | EvWait rat
  | EvPoll client operation
  | EvFetch url "(jsstring \<times> jsstring) list" "credentials_mode option"

text \<open>
  The environment of a batch pass. Every \<open>await\<close> that really suspends is numbered by a
  clock, and the replies of the collaborators are given per suspension. \<open>abortAt\<close> is the
  suspension during which the user presses Stop (the handler can only run while the
  driver is suspended). \<open>abortMessage\<close> is the message of the \<open>AbortError\<close> with which
  the platform's \<open>fetch\<close> rejects; \<open>newURL\<close> is the platform's URL parser, \<open>Inl\<close> the
  message of the \<open>TypeError\<close> it throws.
\<close>

record env =
  abortAt :: "nat option"
  API_KEY :: "jsstring option"
  fileToBase64 :: "nat \<Rightarrow> js_error + jsstring"
  generateVideos :: "nat \<Rightarrow> js_error + operation"
  getVideosOperation :: "nat \<Rightarrow> js_error + operation"
  newURL :: "jsstring \<Rightarrow> jsstring + url"
  fetch :: "nat \<Rightarrow> js_error + http_response"
  blob_body :: "nat \<Rightarrow> js_error + blob"
  abortMessage :: jsstring
  createObjectURL :: "blob \<Rightarrow> jsstring"

text \<open>
  A piece of the driver, started at a clock value, gives its result, the clock value at
  which it ends and the events it has caused.
\<close>

type_synonym 'a run = "'a \<times> nat \<times> event list"

definition prepend :: "event list \<Rightarrow> 'a run \<Rightarrow> 'a run" where
  "prepend evs r = (case r of (x, t, evs') \<Rightarrow> (x, t, evs @ evs'))"

definition aborted :: "env \<Rightarrow> nat \<Rightarrow> bool" where
  "aborted E t = (case abortAt E of None \<Rightarrow> False | Some k \<Rightarrow> k < t)"

text \<open>
  \<^verbatim>\<open>wait(ms, signal)\<close>: rejects at once when the signal is aborted already; otherwise a
  timer is set, and an abort during the wait clears it and rejects.
\<close>

definition wait :: "env \<Rightarrow> rat \<Rightarrow> nat \<Rightarrow> (js_error + unit) run" where
  "wait E ms t =
     (if aborted E t then (Inl newAbortError, t, [])
      else if abortAt E = Some t then (Inl newAbortError, Suc t, [EvWait ms])
      else (Inr (), Suc t, [EvWait ms]))"

section \<open>The generation service (generateVideo)\<close>

definition MODEL_NAME :: jsstring where
  "MODEL_NAME = lit ''veo-3.1-fast-generate-preview''"

definition MAX_START_RETRIES :: nat where
  "MAX_START_RETRIES = 50"

definition MAX_POLLING_RETRIES :: nat where
  "MAX_POLLING_RETRIES = 120"

text \<open>\<open>a || d\<close> with a string default.\<close>

definition orDefault :: "jsstring option \<Rightarrow> jsstring \<Rightarrow> jsstring" where
  "orDefault a d = (if truthy a then the a else d)"

text \<open>Decimal rendering of numbers in template strings, and \<open>Math.round\<close>.\<close>

fun showNat :: "nat \<Rightarrow> jsstring" where
  "showNat n = (if n < 10 then [of_nat (48 + n)] else showNat (n div 10) @ [of_nat (48 + n mod 10)])"

declare showNat.simps [simp del]

definition showInt :: "int \<Rightarrow> jsstring" where
  "showInt i = (if i < 0 then lit ''-'' @ showNat (nat (- i)) else showNat (nat i))"

definition Math_round :: "rat \<Rightarrow> int" where
  "Math_round x = \<lfloor>x + 1 / 2\<rfloor>"

subsection \<open>Initialisation: which client is built\<close>

text \<open>
  The initialisation block. Vertex mode is taken when a Vertex configuration with a
  non-empty project id and access token is given; otherwise the key is the trimmed
  explicit key or, when that is empty or absent, the environment's key, sanitised. The
  flag returned is \<open>usingVertex\<close>.
\<close>

definition initClient :: "env \<Rightarrow> jsstring option \<Rightarrow> VertexConfig option \<Rightarrow> js_error + client \<times> bool" where
  "initClient E customApiKey vertexConfig =
     (if (case vertexConfig of None \<Rightarrow> False
          | Some vc \<Rightarrow> projectId vc \<noteq> [] \<and> accessToken vc \<noteq> [])
      then
        (let vc = the vertexConfig in
         if location vc = []
         then Inl (newError (lit ''Vertex AI requires a Location (e.g., us-central1).''))
         else Inr (VertexClient (projectId vc) (location vc) (trim (accessToken vc)), True))
      else
        (let rawKey = orElse (map_option trim customApiKey) (API_KEY E);
             apiKey = sanitizeKey rawKey
         in if \<not> truthy apiKey
            then Inl (newError (lit
              ''Missing Credentials. Please set an API Key (AI Studio) or Project/Token (Vertex AI) in Settings.''))
            else Inr (ApiKeyClient (the apiKey), False)))"

subsection \<open>The prompt\<close>

definition SILENCE_CLAUSE :: jsstring where
  "SILENCE_CLAUSE = lit ''(Video must be completely silent, no sound, no music, no audio track)''"

definition finalPrompt :: "ProcessingConfig \<Rightarrow> jsstring" where
  "finalPrompt config =
     (let basePrompt = orDefault (Some (prompt config)) (lit ''Silent video, simple motion'')
      in basePrompt @ lit ''. '' @ SILENCE_CLAUSE)"

definition startRequest :: "jsfile \<Rightarrow> ProcessingConfig \<Rightarrow> jsstring \<Rightarrow> request" where
  "startRequest imageFile config base64Image =
     \<lparr>model = MODEL_NAME, prompt_req = finalPrompt config, imageBytes = base64Image,
      mimeType = type_file imageFile, numberOfVideos = 1,
      resolution_req = resolution config, aspectRatio_req = aspectRatio config,
      durationSeconds = 4\<rparr>"

subsection \<open>Starting the generation, with retries\<close>

definition isRateLimit_start :: "js_error \<Rightarrow> bool" where
  "isRateLimit_start e =
     (status_err e = Some 429 \<or> code_err e = Some 429 \<or>
      includes_js (json_err e) (lit ''429'') \<or>
      includes_js (json_err e) (lit ''RESOURCE_EXHAUSTED'') \<or>
      includes_js (json_err e) (lit ''quota''))"

definition isTransient :: "js_error \<Rightarrow> bool" where
  "isTransient e = (status_err e = Some 503 \<or> status_err e = Some 500)"

definition retryMessage :: "js_error \<Rightarrow> rat \<Rightarrow> nat \<Rightarrow> jsstring" where
  "retryMessage e startBackoff startAttempt =
     (let waitTimeSeconds = Math_round (startBackoff / 1000);
          reason = (if isRateLimit_start e then lit ''Rate limit (429)''
                    else lit ''Server error ('' @
                      (case status_err e of None \<Rightarrow> lit ''undefined'' | Some n \<Rightarrow> showInt n) @
                      lit '')'')
      in reason @ lit ''. Waiting '' @ showInt waitTimeSeconds @ lit ''s before retry ('' @
         showNat startAttempt @ lit ''/'' @ showNat MAX_START_RETRIES @ lit '')...'')"

text \<open>
  The loop \<^verbatim>\<open>while (!operation)\<close>, with its variables \<open>startAttempt\<close> and
  \<open>startBackoff\<close> as arguments. It ends because \<open>startAttempt\<close> grows with every
  retry and the loop throws beyond \<open>MAX_START_RETRIES\<close>.
\<close>

function startLoop :: "env \<Rightarrow> client \<Rightarrow> request \<Rightarrow> nat \<Rightarrow> rat \<Rightarrow> nat \<Rightarrow> (js_error + operation) run" where
  "startLoop E ai req startAttempt startBackoff t =
     (if aborted E t then (Inl newAbortError, t, [])
      else case generateVideos E t of
        Inr operation \<Rightarrow> (Inr operation, Suc t, [EvSubmit ai req])
      | Inl e \<Rightarrow>
          if aborted E (Suc t) then (Inl newAbortError, Suc t, [EvSubmit ai req])
          else if isRateLimit_start e \<or> isTransient e then
            (if Suc startAttempt > MAX_START_RETRIES
             then (Inl (newError (lit
               ''Rate limit or server capacity exhausted after multiple retries. Please try again later.'')),
               Suc t, [EvSubmit ai req])
             else prepend [EvSubmit ai req, EvProgress (retryMessage e startBackoff (Suc startAttempt))]
               (case wait E startBackoff (Suc t) of
                  (Inl a, t', ws) \<Rightarrow> (Inl a, t', ws)
                | (Inr _, t', ws) \<Rightarrow>
                    prepend ws (startLoop E ai req (Suc startAttempt)
                      (min (startBackoff * (3 / 2)) 120000) t')))
          else (Inl (newError (orDefault (message_err e) (lit ''Failed to start generation''))),
                Suc t, [EvSubmit ai req]))"
  by pat_completeness auto
termination
  by (relation "measure (\<lambda>(E, ai, req, startAttempt, startBackoff, t). Suc MAX_START_RETRIES - startAttempt)")
     (auto simp: MAX_START_RETRIES_def)

declare startLoop.simps [simp del]

subsection \<open>Polling\<close>

definition isNotFound :: "js_error \<Rightarrow> bool" where
  "isNotFound e =
     (includes_js (json_err e) (lit ''404'') \<or>
      includes_js (json_err e) (lit ''NOT_FOUND'') \<or>
      includes_js (json_err e) (lit ''Requested entity was not found'') \<or>
      status_err e = Some 404 \<or> code_err e = Some 404)"

definition isRateLimit_poll :: "js_error \<Rightarrow> bool" where
  "isRateLimit_poll e =
     (status_err e = Some 429 \<or> code_err e = Some 429 \<or>
      includes_js (json_err e) (lit ''429'') \<or>
      includes_js (json_err e) (lit ''RESOURCE_EXHAUSTED''))"

text \<open>
  The loop \<^verbatim>\<open>while (!updatedOperation.done)\<close>, with \<open>updatedOperation\<close> and
  \<open>retryCount\<close> as arguments. Nothing bounds the number of its iterations (the remote
  side may report a rate limit or an unfinished operation for ever), so the model takes
  the number of iterations it may run; \<open>None\<close> is a run that is still polling after them.
\<close>

fun pollLoop :: "nat \<Rightarrow> env \<Rightarrow> client \<Rightarrow> operation \<Rightarrow> nat \<Rightarrow> nat \<Rightarrow> (js_error + operation) option run" where
  "pollLoop 0 E ai updatedOperation retryCount t =
     (if done_op updatedOperation then (Some (Inr updatedOperation), t, []) else (None, t, []))"
| "pollLoop (Suc fuel) E ai updatedOperation retryCount t =
     (if done_op updatedOperation then (Some (Inr updatedOperation), t, [])
      else if aborted E t then (Some (Inl newAbortError), t, [])
      else case wait E 10000 t of
        (Inl a, t1, ws) \<Rightarrow> (Some (Inl a), t1, ws)
      | (Inr _, t1, ws) \<Rightarrow>
          prepend (ws @ [EvPoll ai updatedOperation])
            (case getVideosOperation E t1 of
               Inr result \<Rightarrow> pollLoop fuel E ai result 0 (Suc t1)
             | Inl e \<Rightarrow>
                 if aborted E (Suc t1) then (Some (Inl newAbortError), Suc t1, [])
                 else if isNotFound e then
                   (if Suc retryCount \<ge> MAX_POLLING_RETRIES
                    then (Some (Inl (newError (lit
                      ''Operation timed out: Resource not found after multiple retries.''))),
                      Suc t1, [])
                    else pollLoop fuel E ai updatedOperation (Suc retryCount) (Suc t1))
                 else if isRateLimit_poll e then
                   (case wait E 20000 (Suc t1) of
                      (Inl a, t2, ws2) \<Rightarrow> (Some (Inl a), t2, ws2)
                    | (Inr _, t2, ws2) \<Rightarrow>
                        prepend ws2 (pollLoop fuel E ai updatedOperation retryCount t2))
                 else (Some (Inl e), Suc t1, [])))"

subsection \<open>Extracting the result\<close>

definition extractResult :: "operation \<Rightarrow> js_error + jsstring" where
  "extractResult updatedOperation =
     (case error_op updatedOperation of
        Some m \<Rightarrow> Inl (newError (orDefault m (lit ''Unknown error during video generation'')))
      | None \<Rightarrow>
         (let operationResponse =
                (case response_op updatedOperation of
                   Some r \<Rightarrow> Some r | None \<Rightarrow> result_op updatedOperation);
              reasons = (case operationResponse of
                   None \<Rightarrow> None | Some r \<Rightarrow> raiMediaFilteredReasons r)
          in case reasons of
            Some (reason # _) \<Rightarrow>
              Inl (newError (lit ''Content blocked by safety filter: '' @ reason))
          | _ \<Rightarrow>
             (let downloadLink =
                    (case operationResponse of
                       None \<Rightarrow> None
                     | Some r \<Rightarrow>
                        (case generatedVideos r of
                           None \<Rightarrow> None | Some [] \<Rightarrow> None | Some (v # _) \<Rightarrow> v))
              in if \<not> truthy downloadLink
                 then Inl (newError (lit
                   ''No video URI returned. Check console for operation details.''))
                 else Inr (the downloadLink))))"

subsection \<open>Downloading the video\<close>

definition fetchAbort :: "env \<Rightarrow> js_error" where
  "fetchAbort E = \<lparr>name_err = lit ''AbortError'', message_err = Some (abortMessage E),
     status_err = None, code_err = Some 20, json_err = lit ''{}''\<rparr>"

definition newTypeError :: "jsstring \<Rightarrow> js_error" where
  "newTypeError m = \<lparr>name_err = lit ''TypeError'', message_err = Some m, status_err = None,
     code_err = None, json_err = lit ''{}''\<rparr>"

text \<open>
  \<open>fetch(url, {signal, ...})\<close> and \<open>response.blob()\<close>: both reject with the signal's
  \<open>AbortError\<close> when it is aborted before or during the call.
\<close>

definition fetch_call ::
  "env \<Rightarrow> url \<Rightarrow> (jsstring \<times> jsstring) list \<Rightarrow> credentials_mode option \<Rightarrow> nat \<Rightarrow> (js_error + http_response) run" where
  "fetch_call E u hs c t =
     (if aborted E t then (Inl (fetchAbort E), t, [])
      else if abortAt E = Some t then (Inl (fetchAbort E), Suc t, [EvFetch u hs c])
      else (fetch E t, Suc t, [EvFetch u hs c]))"

definition blob_call :: "env \<Rightarrow> nat \<Rightarrow> (js_error + blob) run" where
  "blob_call E t =
     (if aborted E t then (Inl (fetchAbort E), t, [])
      else if abortAt E = Some t then (Inl (fetchAbort E), Suc t, [])
      else (blob_body E t, Suc t, []))"

definition readResponse :: "env \<Rightarrow> (js_error + http_response) run \<Rightarrow> (js_error + blob) run" where
  "readResponse E r =
     (case r of
        (Inl e, t, evs) \<Rightarrow> (Inl e, t, evs)
      | (Inr response, t, evs) \<Rightarrow>
          if \<not> ok response
          then (Inl (newError (lit ''Download failed: '' @ statusText response)), t, evs)
          else prepend evs (blob_call E t))"

text \<open>The body of the final \<open>try\<close>.\<close>

definition downloadTry ::
  "env \<Rightarrow> bool \<Rightarrow> VertexConfig option \<Rightarrow> jsstring option \<Rightarrow> jsstring \<Rightarrow> nat \<Rightarrow> (js_error + blob) run" where
  "downloadTry E usingVertex vertexConfig customApiKey downloadLink t =
     (case newURL E downloadLink of
        Inl m \<Rightarrow> (Inl (newTypeError m), t, [])
      | Inr u \<Rightarrow>
          if usingVertex then
            (let headers = [(lit ''Authorization'', lit ''Bearer '' @
                   (case vertexConfig of None \<Rightarrow> lit ''undefined''
                    | Some vc \<Rightarrow> trim (accessToken vc)))]
             in readResponse E (fetch_call E u headers None t))
          else
            (let rawKey = orElse (map_option trim customApiKey) (API_KEY E);
                 apiKey = sanitizeKey rawKey;
                 u' = (if truthy apiKey then searchParams_set (lit ''key'') (the apiKey) u else u)
             in readResponse E (fetch_call E u' [] (Some omit) t)))"

text \<open>The \<open>catch\<close> around it wraps whatever was thrown.\<close>

definition download ::
  "env \<Rightarrow> bool \<Rightarrow> VertexConfig option \<Rightarrow> jsstring option \<Rightarrow> jsstring \<Rightarrow> nat \<Rightarrow> (js_error + blob) run" where
  "download E usingVertex vertexConfig customApiKey downloadLink t =
     (case downloadTry E usingVertex vertexConfig customApiKey downloadLink t of
        (Inl err, t', evs) \<Rightarrow>
          (Inl (newError (lit ''Video download error: '' @
             (case message_err err of None \<Rightarrow> lit ''undefined'' | Some m \<Rightarrow> m))), t', evs)
      | (Inr b, t', evs) \<Rightarrow> (Inr b, t', evs))"

subsection \<open>The driver\<close>

definition generateVideo ::
  "nat \<Rightarrow> env \<Rightarrow> jsfile \<Rightarrow> ProcessingConfig \<Rightarrow> jsstring option \<Rightarrow> VertexConfig option \<Rightarrow> nat \<Rightarrow> (js_error + blob) option run" where
  "generateVideo fuel E imageFile config customApiKey vertexConfig t =
     (if aborted E t then (Some (Inl newAbortError), t, [])
      else case initClient E customApiKey vertexConfig of
        Inl e \<Rightarrow> (Some (Inl e), t, [])
      | Inr (ai, usingVertex) \<Rightarrow>
          prepend [EvProgress (lit ''Encoding image...''), EvEncode imageFile]
           (case fileToBase64 E t of
              Inl e \<Rightarrow> (Some (Inl e), Suc t, [])
            | Inr base64Image \<Rightarrow>
                prepend [EvProgress (lit ''Initializing generation...'')]
                 (case startLoop E ai (startRequest imageFile config base64Image) 0 20000 (Suc t) of
                    (Inl e, t1, ev1) \<Rightarrow> (Some (Inl e), t1, ev1)
                  | (Inr operation, t1, ev1) \<Rightarrow>
                      prepend ev1
                       (if \<not> truthy (name_op operation)
                        then (Some (Inl (newError (lit
                          ''Failed to start video generation: No operation name returned.''))), t1, [])
                        else
                          prepend [EvProgress (lit ''Generating video (this may take a minute)...'')]
                           (case wait E 10000 t1 of
                              (Inl e, t2, ev2) \<Rightarrow> (Some (Inl e), t2, ev2)
                            | (Inr _, t2, ev2) \<Rightarrow>
                                prepend ev2
                                 (case pollLoop fuel E ai operation 0 t2 of
                                    (None, t3, ev3) \<Rightarrow> (None, t3, ev3)
                                  | (Some (Inl e), t3, ev3) \<Rightarrow> (Some (Inl e), t3, ev3)
                                  | (Some (Inr updatedOperation), t3, ev3) \<Rightarrow>
                                      prepend ev3
                                       (case extractResult updatedOperation of
                                          Inl e \<Rightarrow> (Some (Inl e), t3, [])
                                        | Inr downloadLink \<Rightarrow>
                                            prepend [EvProgress (lit ''Downloading result...'')]
                                             (case download E usingVertex vertexConfig customApiKey
                                                     downloadLink t3 of
                                                (r, t4, ev4) \<Rightarrow> (Some r, t4, ev4)))))))))"

section \<open>The queue processor (processQueue)\<close>

datatype AuthMode = aistudio | vertex

text \<open>The settings a pass closes over.\<close>

record settings =
  authMode :: AuthMode
  customApiKey :: jsstring
  vertexConfig :: VertexConfig
  config :: ProcessingConfig

text \<open>
  The state of the application during a pass: the React state \<open>jobs\<close>,
  \<open>isProcessing\<close>, \<open>showSettings\<close>; every value \<open>jobs\<close> takes, in order
  (\<open>history\<close>); the number of suspensions since the pass created its
  \<open>AbortController\<close> (\<open>now\<close>); and what the driver did (\<open>log\<close>).
\<close>

record appstate =
  jobs :: "VideoJob list"
  isProcessing :: bool
  showSettings :: bool
  history :: "VideoJob list list"
  now :: nat
  log :: "event list"

definition setJobs :: "(VideoJob list \<Rightarrow> VideoJob list) \<Rightarrow> appstate \<Rightarrow> appstate" where
  "setJobs f w = w\<lparr>jobs := f (jobs w), history := history w @ [f (jobs w)]\<rparr>"

text \<open>The progress callback handed to the driver, applied to what the driver reports.\<close>

definition onProgress :: "jsstring \<Rightarrow> appstate \<Rightarrow> event \<Rightarrow> appstate" where
  "onProgress i w ev =
     (case ev of
        EvProgress p \<Rightarrow> setJobs (map (\<lambda>j. if id_job j = i then j\<lparr>progress := Some p\<rparr> else j)) w
      | _ \<Rightarrow> w)"

definition isCancellation :: "js_error \<Rightarrow> bool" where
  "isCancellation e = (name_err e = lit ''AbortError'' \<or> message_err e = Some (lit ''Aborted''))"

definition mentionsCredentials :: "js_error \<Rightarrow> bool" where
  "mentionsCredentials e =
     (case message_err e of None \<Rightarrow> False
      | Some m \<Rightarrow> includes_js m (lit ''API Key'') \<or> includes_js m (lit ''Access Token''))"

text \<open>
  The loop \<^verbatim>\<open>for (const job of pendingJobs)\<close>. The flag returned says whether the loop
  was left (by its end or a \<open>break\<close>); it is \<open>False\<close> when the driver is still polling.
\<close>

fun processLoop :: "nat \<Rightarrow> env \<Rightarrow> settings \<Rightarrow> VideoJob list \<Rightarrow> appstate \<Rightarrow> appstate \<times> bool" where
  "processLoop fuel E S [] w = (w, True)"
| "processLoop fuel E S (job # rest) w =
     (if aborted E (now w) then (w, True)
      else
        (let w1 = setJobs (map (\<lambda>j. if id_job j = id_job job
                     then j\<lparr>status := PROCESSING, progress := Some (lit ''Starting...'')\<rparr> else j)) w
         in case generateVideo fuel E (file_job job) (config S)
                  (if authMode S = aistudio then Some (customApiKey S) else None)
                  (if authMode S = vertex then Some (vertexConfig S) else None) (now w1) of
           (r, t', evs) \<Rightarrow>
             (let w2 = (foldl (onProgress (id_job job)) w1 evs)\<lparr>now := t', log := log w1 @ evs\<rparr>
              in case r of
                None \<Rightarrow> (w2, False)
              | Some (Inr videoBlob) \<Rightarrow>
                  processLoop fuel E S rest
                    (setJobs (map (\<lambda>j. if id_job j = id_job job
                       then j\<lparr>status := COMPLETED, videoUrl := Some (createObjectURL E videoBlob),
                              progress := Some (lit ''Done'')\<rparr> else j)) w2)
              | Some (Inl e) \<Rightarrow>
                  if isCancellation e then
                    (setJobs (map (\<lambda>j.
                       if id_job j = id_job job
                       then j\<lparr>status := FAILED, error := Some (lit ''Cancelled'')\<rparr>
                       else if status j = PENDING
                       then j\<lparr>status := FAILED, error := Some (lit ''Stopped by user'')\<rparr>
                       else j)) w2, True)
                  else
                    processLoop fuel E S rest
                      (setJobs (map (\<lambda>j. if id_job j = id_job job
                         then j\<lparr>status := FAILED,
                                error := Some (orDefault (message_err e) (lit ''Failed''))\<rparr> else j))
                         (if mentionsCredentials e then w2\<lparr>showSettings := True\<rparr> else w2)))))"

definition processQueue :: "nat \<Rightarrow> env \<Rightarrow> settings \<Rightarrow> appstate \<Rightarrow> appstate" where
  "processQueue fuel E S w =
     (if isProcessing w then w
      else
        (let pendingJobs = filter (\<lambda>j. status j = PENDING) (jobs w)
         in case processLoop fuel E S pendingJobs (w\<lparr>isProcessing := True, now := 0\<rparr>) of
           (w', finished) \<Rightarrow> if finished then w'\<lparr>isProcessing := False\<rparr> else w'))"

section \<open>Reading a run\<close>

definition outcome :: "'a run \<Rightarrow> 'a" where
  "outcome r = fst r"

definition events :: "'a run \<Rightarrow> event list" where
  "events r = snd (snd r)"

fun submissions :: "event list \<Rightarrow> request list" where
  "submissions [] = []"
| "submissions (EvSubmit ai req # evs) = req # submissions evs"
| "submissions (ev # evs) = submissions evs"

fun waits :: "event list \<Rightarrow> rat list" where
  "waits [] = []"
| "waits (EvWait ms # evs) = ms # waits evs"
| "waits (ev # evs) = waits evs"

fun polls :: "event list \<Rightarrow> operation list" where
  "polls [] = []"
| "polls (EvPoll ai op # evs) = op # polls evs"
| "polls (ev # evs) = polls evs"

fun fetched :: "event list \<Rightarrow> (url \<times> (jsstring \<times> jsstring) list \<times> credentials_mode option) list" where
  "fetched [] = []"
| "fetched (EvFetch u hs c # evs) = (u, hs, c) # fetched evs"
| "fetched (ev # evs) = fetched evs"

text \<open>
  What a pass leaves behind: the status and error of every job, whether the pass is
  still marked active, and the number of submissions it made.
\<close>

definition summary :: "appstate \<Rightarrow> (JobStatus \<times> jsstring option) list \<times> bool \<times> nat" where
  "summary w = (map (\<lambda>j. (status j, error j)) (jobs w), isProcessing w, length (submissions (log w)))"

section \<open>The error taxonomy of the specification\<close>

text \<open>The errors the specification names, as the values the code throws for them.\<close>

definition MissingLocation :: js_error where
  "MissingLocation = newError (lit ''Vertex AI requires a Location (e.g., us-central1).'')"

definition MissingCredentials :: js_error where
  "MissingCredentials = newError (lit
     ''Missing Credentials. Please set an API Key (AI Studio) or Project/Token (Vertex AI) in Settings.'')"

definition RetriesExhausted :: js_error where
  "RetriesExhausted = newError (lit
     ''Rate limit or server capacity exhausted after multiple retries. Please try again later.'')"

definition PollingTimeout :: js_error where
  "PollingTimeout = newError (lit
     ''Operation timed out: Resource not found after multiple retries.'')"

definition ContentFiltered :: "jsstring \<Rightarrow> js_error" where
  "ContentFiltered reason = newError (lit ''Content blocked by safety filter: '' @ reason)"

definition NoResultLocator :: js_error where
  "NoResultLocator = newError (lit ''No video URI returned. Check console for operation details.'')"

definition DownloadFailed :: "jsstring \<Rightarrow> js_error" where
  "DownloadFailed m = newError (lit ''Video download error: '' @ m)"

text \<open>
  The specification's condition for the delegated mode, and the key its direct-key path
  resolves: the explicit key when one is supplied (non-empty once trimmed), else the
  environment's.
\<close>

definition delegated :: "VertexConfig option \<Rightarrow> bool" where
  "delegated v = (case v of None \<Rightarrow> False | Some vc \<Rightarrow> projectId vc \<noteq> [] \<and> accessToken vc \<noteq> [])"

definition resolvedKey :: "env \<Rightarrow> jsstring option \<Rightarrow> jsstring option" where
  "resolvedKey E k =
     (case k of
        None \<Rightarrow> API_KEY E
      | Some s \<Rightarrow> if trim s \<noteq> [] then Some (trim s) else API_KEY E)"

text \<open>
  The specification's classes of submission failures that are retried, a run whose
  submissions all fail that way, and its backoff sequence: 20000 multiplied by 1.5 per
  retry, capped at 120000.
\<close>

definition retryable :: "js_error \<Rightarrow> bool" where
  "retryable e = (isRateLimit_start e \<or> isTransient e)"

definition alwaysRetryable :: "env \<Rightarrow> bool" where
  "alwaysRetryable E = (\<forall>t. case generateVideos E t of Inl e \<Rightarrow> retryable e | Inr _ \<Rightarrow> False)"

text \<open>One update of \<open>startBackoff\<close>, as the loop does it.\<close>

definition backoffStep :: "rat \<Rightarrow> rat" where
  "backoffStep b = min (b * (3 / 2)) 120000"

definition backoffSeq :: "nat \<Rightarrow> rat" where
  "backoffSeq n = min (20000 * (3 / 2) ^ n) 120000"

text \<open>A run whose status checks all fail as not-found.\<close>

definition alwaysNotFound :: "env \<Rightarrow> bool" where
  "alwaysNotFound E = (\<forall>t. case getVideosOperation E t of Inl e \<Rightarrow> isNotFound e | Inr _ \<Rightarrow> False)"

text \<open>
  The payload of a completed operation (\<open>response\<close>, else the legacy \<open>result\<close>), its
  moderation-filter reasons and the locator of its first produced video.
\<close>

definition payload :: "operation \<Rightarrow> op_response option" where
  "payload op = (case response_op op of Some r \<Rightarrow> Some r | None \<Rightarrow> result_op op)"

definition filterReasons :: "operation \<Rightarrow> jsstring list option" where
  "filterReasons op = (case payload op of None \<Rightarrow> None | Some r \<Rightarrow> raiMediaFilteredReasons r)"

definition firstLocator :: "operation \<Rightarrow> jsstring option" where
  "firstLocator op =
     (case payload op of
        None \<Rightarrow> None
      | Some r \<Rightarrow> (case generatedVideos r of None \<Rightarrow> None | Some vs \<Rightarrow> (case vs of [] \<Rightarrow> None | v # _ \<Rightarrow> v)))"

text \<open>
  The state machine of a job, as the specification has it: a status stays, or goes from
  Pending to Processing, or from Processing to Completed or Failed; the identity of the
  job stays.
\<close>

definition movesClaimed :: "VideoJob \<Rightarrow> VideoJob \<Rightarrow> bool" where
  "movesClaimed j j' =
     (id_job j' = id_job j \<and>
      (status j' = status j \<or>
       status j = PENDING \<and> status j' = PROCESSING \<or>
       status j = PROCESSING \<and> (status j' = COMPLETED \<or> status j' = FAILED)))"

definition processingCount :: "VideoJob list \<Rightarrow> nat" where
  "processingCount js = length (filter (\<lambda>j. status j = PROCESSING) js)"

text \<open>
  What the branch for a cancellation does to a job: the processing job fails with the
  error "Cancelled", a pending job fails with the error "Stopped by user" without having
  been processing, and any other job is left as it is. A step of the whole list is a
  cancellation step when one job is processing before it and every job moves that way.
\<close>

definition movesOnCancel :: "VideoJob \<Rightarrow> VideoJob \<Rightarrow> bool" where
  "movesOnCancel j j' =
     (if status j = PROCESSING
      then id_job j' = id_job j \<and> status j' = FAILED \<and> error j' = Some (lit ''Cancelled'')
      else if status j = PENDING
      then id_job j' = id_job j \<and> status j' = FAILED \<and> error j' = Some (lit ''Stopped by user'')
      else j' = j)"

definition cancelStep :: "VideoJob list \<Rightarrow> VideoJob list \<Rightarrow> bool" where
  "cancelStep js js' = (processingCount js = 1 \<and> list_all2 movesOnCancel js js')"

text \<open>
  The values \<open>jobs\<close> may take in a pass, in order: every step keeps every job to the
  state machine, except that the last step may be a cancellation step.
\<close>

definition lawful :: "VideoJob list list \<Rightarrow> bool" where
  "lawful T =
     (successively (list_all2 movesClaimed) (butlast T) \<and>
      (length T < 2 \<or> list_all2 movesClaimed (last (butlast T)) (last T) \<or>
       cancelStep (last (butlast T)) (last T)))"




definition quietReply :: "js_error + operation \<Rightarrow> bool" where
  "quietReply r =
     (case r of
        Inl e \<Rightarrow> \<not> isCancellation e
      | Inr op \<Rightarrow> error_op op \<noteq> Some (Some (lit ''Aborted'')))"

definition quiet :: "env \<Rightarrow> bool" where
  "quiet E =
     (abortAt E = None \<and>
      (\<forall>t. case fileToBase64 E t of Inl e \<Rightarrow> \<not> isCancellation e | Inr _ \<Rightarrow> True) \<and>
      (\<forall>t. quietReply (generateVideos E t)) \<and>
      (\<forall>t. quietReply (getVideosOperation E t)))"

text \<open>
  Enqueue order: jobs are appended to the list, and the job taken next is the first
  pending one, so a pending job is never followed by a processing one.
\<close>

fun inOrder :: "VideoJob list \<Rightarrow> bool" where
  "inOrder [] = True"
| "inOrder (j # js) = ((status j \<noteq> PENDING \<or> list_all (\<lambda>j'. status j' \<noteq> PROCESSING) js) \<and> inOrder js)"




definition snapshotOK :: "VideoJob list \<Rightarrow> bool" where
  "snapshotOK js = (processingCount js \<le> 1 \<and> inOrder js)"

text \<open>
  What a pass has recorded since it started in a state with jobs \<open>J0\<close> and history
  \<open>H0\<close>: every snapshot is in order with at most one job processing, and the steps
  satisfy \<open>P\<close>, which is the state machine of every job at every step while the pass
  runs (\<open>tracked\<close>), and \<open>lawful\<close> once it has ended (\<open>ended\<close>).
\<close>

definition recorded ::
  "(VideoJob list list \<Rightarrow> bool) \<Rightarrow> VideoJob list list \<Rightarrow> VideoJob list \<Rightarrow> appstate \<Rightarrow> bool" where
  "recorded P H0 J0 w =
     (\<exists>hs. history w = H0 @ hs \<and> P (J0 # hs) \<and>
        (\<forall>js \<in> set (J0 # hs). snapshotOK js) \<and> jobs w = last (J0 # hs))"

definition tracked :: "VideoJob list list \<Rightarrow> VideoJob list \<Rightarrow> appstate \<Rightarrow> bool" where
  "tracked H0 J0 w = recorded (successively (list_all2 movesClaimed)) H0 J0 w"

definition ended :: "VideoJob list list \<Rightarrow> VideoJob list \<Rightarrow> appstate \<Rightarrow> bool" where
  "ended H0 J0 w = recorded lawful H0 J0 w"


section \<open>Example inputs\<close>

definition doneOp :: operation where
  "doneOp = \<lparr>name_op = Some (lit ''operations/1''), done_op = True, error_op = None,
     response_op = Some \<lparr>raiMediaFilteredReasons = None,
       generatedVideos = Some [Some (lit ''https://video.example/1'')]\<rparr>,
     result_op = None\<rparr>"

definition pendingOp :: operation where
  "pendingOp = doneOp\<lparr>done_op := False, response_op := None\<rparr>"

definition rateLimited :: js_error where
  "rateLimited = \<lparr>name_err = lit ''ApiError'', message_err = Some (lit ''Too Many Requests''),
     status_err = Some 429, code_err = None, json_err = lit ''{}''\<rparr>"

definition notFound :: js_error where
  "notFound = \<lparr>name_err = lit ''ApiError'', message_err = Some (lit ''Not Found''),
     status_err = Some 404, code_err = None, json_err = lit ''{}''\<rparr>"

definition forbidden :: js_error where
  "forbidden = \<lparr>name_err = lit ''ApiError'', message_err = Some (lit ''Forbidden''),
     status_err = Some 403, code_err = None, json_err = lit ''{}''\<rparr>"

definition filteredOp :: operation where
  "filteredOp = doneOp\<lparr>response_op := Some \<lparr>raiMediaFilteredReasons = Some [lit ''violence'', lit ''other''],
     generatedVideos = Some [Some (lit ''https://video.example/1'')]\<rparr>\<rparr>"

text \<open>An environment in which every call succeeds at once and nobody presses Stop.\<close>

definition calmEnv :: env where
  "calmEnv = \<lparr>abortAt = None, API_KEY = None,
     fileToBase64 = (\<lambda>_. Inr (lit ''aW1n'')),
     generateVideos = (\<lambda>_. Inr doneOp),
     getVideosOperation = (\<lambda>_. Inr doneOp),
     newURL = (\<lambda>s. Inr \<lparr>base_url = s, searchParams = []\<rparr>),
     fetch = (\<lambda>_. Inr \<lparr>ok = True, statusText = lit ''OK''\<rparr>),
     blob_body = (\<lambda>_. Inr [0, 1, 2]),
     abortMessage = lit ''signal is aborted without reason'',
     createObjectURL = (\<lambda>_. lit ''blob:1'')\<rparr>"

definition filteredEnv :: env where
  "filteredEnv = calmEnv\<lparr>generateVideos := (\<lambda>_. Inr filteredOp)\<rparr>"

definition busyEnv :: env where
  "busyEnv = calmEnv\<lparr>generateVideos := (\<lambda>_. Inl rateLimited)\<rparr>"

text \<open>
  Three submissions are rate-limited, the fourth is accepted; the operation is then
  never visible to the status endpoint.
\<close>

definition lostEnv :: env where
  "lostEnv = calmEnv\<lparr>generateVideos := (\<lambda>t. if t < 7 then Inl rateLimited else Inr pendingOp),
     getVideosOperation := (\<lambda>_. Inl notFound)\<rparr>"

text \<open>The first status check is rate-limited, the second finds the operation done.\<close>

definition throttledEnv :: env where
  "throttledEnv = calmEnv\<lparr>getVideosOperation := (\<lambda>t. if t < 2 then Inl rateLimited else Inr doneOp)\<rparr>"

definition forbiddenEnv :: env where
  "forbiddenEnv = calmEnv\<lparr>getVideosOperation := (\<lambda>_. Inl forbidden)\<rparr>"

text \<open>
  The remote side gives a relative reference as the locator of the video. Of the
  platform's URL parser this much is modelled: called without a base, it rejects a
  string in which no colon occurs, since such a string has no scheme.
\<close>

definition relativeOp :: operation where
  "relativeOp = doneOp\<lparr>response_op := Some \<lparr>raiMediaFilteredReasons = None,
     generatedVideos = Some [Some (lit ''video?id=1'')]\<rparr>\<rparr>"

definition badUrlEnv :: env where
  "badUrlEnv = calmEnv\<lparr>generateVideos := (\<lambda>_. Inr relativeOp),
     newURL := (\<lambda>s. if includes_js s (lit '':'') then Inr \<lparr>base_url = s, searchParams = []\<rparr>
                     else Inl (lit ''Invalid URL''))\<rparr>"

text \<open>The download is refused with 403.\<close>


text \<open>
  Nobody presses Stop, and every submission is refused with an error whose message is
  "Aborted".
\<close>

definition abortedRemotely :: js_error where
  "abortedRemotely = \<lparr>name_err = lit ''ApiError'', message_err = Some (lit ''Aborted''),
     status_err = Some 409, code_err = None, json_err = lit ''{}''\<rparr>"

definition hungUpEnv :: env where
  "hungUpEnv = calmEnv\<lparr>generateVideos := (\<lambda>_. Inl abortedRemotely)\<rparr>"

definition refusedEnv :: env where
  "refusedEnv = calmEnv\<lparr>fetch := (\<lambda>_. Inr \<lparr>ok = False, statusText = lit ''Forbidden''\<rparr>)\<rparr>"

text \<open>
  Stop is pressed during the wait before the first status check (suspension 2 of the
  first job), resp. during the download of the first job's video (suspension 3).
\<close>

definition stoppedEnv :: env where
  "stoppedEnv = calmEnv\<lparr>abortAt := Some 2\<rparr>"

definition stoppedLateEnv :: env where
  "stoppedLateEnv = calmEnv\<lparr>abortAt := Some 3\<rparr>"

definition png :: jsfile where
  "png = \<lparr>name_file = lit ''a.png'', type_file = lit ''image/png''\<rparr>"

definition demoConfig :: ProcessingConfig where
  "demoConfig = \<lparr>prompt = lit ''Silent video. No audio. Add simple motion.'',
     resolution = R720p, aspectRatio = A9x16\<rparr>"

definition demoVertex :: VertexConfig where
  "demoVertex = \<lparr>projectId = lit ''proj'', location = lit ''us-central1'', accessToken = lit ''ya29''\<rparr>"

definition newJob :: "string \<Rightarrow> VideoJob" where
  "newJob i = \<lparr>id_job = lit i, file_job = png, status = PENDING, progress = None,
     videoUrl = None, error = None, thumbnailUrl = lit ''data:thumb''\<rparr>"

definition demoSettings :: settings where
  "demoSettings = \<lparr>authMode = aistudio, customApiKey = lit ''KEY'',
     vertexConfig = \<lparr>projectId = [], location = lit ''us-central1'', accessToken = []\<rparr>,
     config = demoConfig\<rparr>"

definition demoApp :: appstate where
  "demoApp = \<lparr>jobs = [newJob ''a'', newJob ''b'', newJob ''c''], isProcessing = False,
     showSettings = False, history = [], now = 0, log = []\<rparr>"

section \<open>Facts about strings\<close>

lemma lit_Nil [simp]: "lit [] = []"
  by (simp add: lit_def)

lemma lit_append: "lit (a @ b) = lit a @ lit b"
  by (simp add: lit_def)

lemma length_lit [simp]: "length (lit s) = length s"
  by (simp add: lit_def)

lemma unat_lit_char: "unat (of_nat (of_char c) :: 16 word) = of_char c"
proof -
  have "(of_char c :: nat) < 65536"
    using nat_of_char_less_256 [of c] by linarith
  then show ?thesis
    by (simp add: unat_of_nat)
qed

lemma lit_char_inj: "(of_nat (of_char c) :: 16 word) = of_nat (of_char d) \<longleftrightarrow> c = d"
  by (metis unat_lit_char of_char_eq_iff)

lemma lit_eq_iff [simp]: "lit a = lit b \<longleftrightarrow> a = b"
proof -
  have "inj (\<lambda>c. of_nat (of_char c) :: 16 word)"
    by (rule injI) (simp add: lit_char_inj)
  then show ?thesis
    by (simp add: lit_def inj_map_eq_map)
qed

lemma lit_eq_Nil [simp]: "lit a = [] \<longleftrightarrow> a = []"
  by (simp add: lit_def)

section \<open>Key sanitisation: properties\<close>

lemma DQUOTE_eq: "DQUOTE = [0x22]"
  by (simp add: DQUOTE_def lit_def)

lemma SQUOTE_eq: "SQUOTE = [0x27]"
  by (simp add: SQUOTE_def lit_def)

lemma not_ws_quote: "\<not> is_ws 0x22" "\<not> is_ws 0x27"
  by (simp_all add: is_ws_def)

lemma trim_wrapped:
  assumes "\<forall>c \<in> set ws1. is_ws c" "\<forall>c \<in> set ws2. is_ws c" "\<not> is_ws q"
  shows "trim (ws1 @ [q] @ t @ [q] @ ws2) = [q] @ t @ [q]"
proof -
  have a: "dropWhile is_ws (ws1 @ [q] @ t @ [q] @ ws2) = [q] @ t @ [q] @ ws2"
    using assms(1,3) by (simp add: dropWhile_append3)
  have b: "rev ([q] @ t @ [q] @ ws2) = rev ws2 @ [q] @ rev t @ [q]"
    by simp
  have c: "dropWhile is_ws (rev ws2 @ [q] @ rev t @ [q]) = [q] @ rev t @ [q]"
    using assms(2,3) by (simp add: dropWhile_append3)
  show ?thesis
    unfolding trim_def a b c by simp
qed

lemma slice_inner: "slice ([q] @ t @ [q']) 1 (- 1) = t"
  by (simp add: slice_def Let_def)

text \<open>
  Round trip: whatever \<open>t\<close> is, the key made of whitespace, a quote character,
  \<open>t\<close>, the same quote character and whitespace sanitises to exactly \<open>t\<close>.
\<close>

lemma sanitizeKey_roundtrip:
  assumes "\<forall>c \<in> set ws1. is_ws c" "\<forall>c \<in> set ws2. is_ws c" "q = DQUOTE \<or> q = SQUOTE"
  shows "sanitizeKey (Some (ws1 @ q @ t @ q @ ws2)) = Some t"
proof -
  from assms(3) obtain c where q: "q = [c]" and c: "c = 0x22 \<or> c = 0x27"
    by (auto simp: DQUOTE_eq SQUOTE_eq)
  then have nws: "\<not> is_ws c"
    using not_ws_quote by auto
  have tr: "trim (ws1 @ q @ t @ q @ ws2) = [c] @ t @ [c]"
    using trim_wrapped [OF assms(1,2) nws] by (simp add: q)
  have sw: "startsWith ([c] @ t @ [c]) [c]" "endsWith ([c] @ t @ [c]) [c]"
    by (simp_all add: startsWith_def endsWith_def)
  have "truthy (Some (ws1 @ q @ t @ q @ ws2))"
    by (simp add: truthy_def q)
  then show ?thesis
    using c sw slice_inner [of c t c]
    by (auto simp: sanitizeKey_def tr DQUOTE_eq SQUOTE_eq Let_def)
qed

lemma sanitizeKey_unquoted:
  assumes "key \<noteq> []"
    and "\<not> (startsWith (trim key) DQUOTE \<and> endsWith (trim key) DQUOTE)"
    and "\<not> (startsWith (trim key) SQUOTE \<and> endsWith (trim key) SQUOTE)"
  shows "sanitizeKey (Some key) = Some (trim key)"
  using assms by (auto simp add: sanitizeKey_def truthy_def Let_def)

theorem sanitizeKey_roundtrip_witness:
  "sanitizeKey (Some (lit '' \"a b c\"  '')) = Some (lit ''a b c'') \<and>
   sanitizeKey (Some (lit [CHR 0x27, CHR ''k'', CHR 0x22, CHR 0x27])) = Some (lit [CHR ''k'', CHR 0x22])"
proof -
  have ws: "\<forall>c \<in> set (lit '' ''). is_ws c" "\<forall>c \<in> set (lit ''  ''). is_ws c"
    "\<forall>c \<in> set ([] :: jsstring). is_ws c"
    by (simp_all add: lit_def is_ws_def)
  have a: "sanitizeKey (Some (lit '' '' @ DQUOTE @ lit ''a b c'' @ DQUOTE @ lit ''  '')) = Some (lit ''a b c'')"
    using sanitizeKey_roundtrip [OF ws(1) ws(2), of DQUOTE "lit ''a b c''"] by simp
  have b: "sanitizeKey (Some ([] @ SQUOTE @ lit [CHR ''k'', CHR 0x22] @ SQUOTE @ [])) = Some (lit [CHR ''k'', CHR 0x22])"
    using sanitizeKey_roundtrip [OF ws(3) ws(3), of SQUOTE "lit [CHR ''k'', CHR 0x22]"] by simp
  show ?thesis
    using a b by (simp add: DQUOTE_def SQUOTE_def lit_append [symmetric] del: lit_eq_iff)
qed

text \<open>
  C10. Sanitising trims the key and strips one layer of matching quotes: wrapping any
  \<open>t\<close> in a pair of equal quote characters and whitespace gives back \<open>t\<close> (the
  round trip above), and a trimmed key that does not start and end with the same quote
  character is returned as trimmed (\<open>sanitizeKey_unquoted\<close>). An unmatched quote is
  to be left in place, too. That fails for a key that is one quote character, alone or
  between whitespace: the character is its own first and last character,
  \<open>slice(1, -1)\<close> removes it, and the sanitised key is empty.
\<close>

theorem sanitizeKey_lone_quote:
  "sanitizeKey (Some DQUOTE) = Some [] \<and> sanitizeKey (Some SQUOTE) = Some [] \<and>
   sanitizeKey (Some (lit '' '' @ DQUOTE @ lit '' '')) = Some []"
  by (simp add: sanitizeKey_def truthy_def DQUOTE_eq SQUOTE_eq trim_def is_ws_def
      startsWith_def endsWith_def slice_def lit_def)

section \<open>Facts about runs\<close>

lemma events_prepend [simp]: "events (prepend evs r) = evs @ events r"
  by (cases r) (simp add: events_def prepend_def)

lemma outcome_prepend [simp]: "outcome (prepend evs r) = outcome r"
  by (cases r) (simp add: outcome_def prepend_def)

lemma events_triple [simp]: "events (x, t, evs) = evs"
  by (simp add: events_def)

lemma outcome_triple [simp]: "outcome (x, t, evs) = x"
  by (simp add: outcome_def)

lemma submissions_append [simp]: "submissions (a @ b) = submissions a @ submissions b"
  by (induction a rule: submissions.induct) simp_all

lemma waits_append [simp]: "waits (a @ b) = waits a @ waits b"
  by (induction a rule: waits.induct) simp_all

lemma submissions_wait [simp]: "submissions (events (wait E ms t)) = []"
  by (simp add: wait_def)

lemma submissions_startLoop:
  "set (submissions (events (startLoop E ai req a b t))) \<subseteq> {req}"
proof (induction E ai req a b t rule: startLoop.induct)
  case (1 E ai req a b t)
  show ?case
    apply (subst startLoop.simps)
    using 1
    apply (auto split: sum.splits prod.splits simp: wait_def)
    done
qed

lemma submissions_pollLoop [simp]:
  "submissions (events (pollLoop fuel E ai op rc t)) = []"
  by (induction fuel arbitrary: op rc t)
     (auto split: sum.splits prod.splits simp: wait_def)

lemma submissions_download [simp]:
  "submissions (events (download E uv v k link t)) = []"
  by (auto simp: download_def downloadTry_def readResponse_def fetch_call_def blob_call_def Let_def prepend_def
      split: sum.splits prod.splits)

lemma submissions_startLoopD:
  "startLoop E ai req a b t = (r, t', evs) \<Longrightarrow> set (submissions evs) \<subseteq> {req}"
  using submissions_startLoop [of E ai req a b t] by simp

lemma submissions_pollLoopD:
  "pollLoop fuel E ai op rc t = (r, t', evs) \<Longrightarrow> submissions evs = []"
  using submissions_pollLoop [of fuel E ai op rc t] by simp

lemma submissions_downloadD:
  "download E uv v k link t = (r, t', evs) \<Longrightarrow> submissions evs = []"
  using submissions_download [of E uv v k link t] by simp

lemma submissions_waitD:
  "wait E ms t = (r, t', evs) \<Longrightarrow> submissions evs = []"
  using submissions_wait [of E ms t] by simp

lemma submissions_generateVideo:
  "set (submissions (events (generateVideo fuel E f c k v t))) \<subseteq>
     (case fileToBase64 E t of Inl _ \<Rightarrow> {} | Inr b \<Rightarrow> {startRequest f c b})"
  unfolding generateVideo_def
  by (auto split: sum.splits prod.splits option.splits
      dest!: submissions_startLoopD submissions_pollLoopD submissions_downloadD submissions_waitD)

section \<open>The prompt: properties\<close>

lemma finalPrompt_eq:
  "finalPrompt cfg =
     (if prompt cfg = [] then lit ''Silent video, simple motion'' else prompt cfg) @
     lit ''. '' @ SILENCE_CLAUSE"
  by (simp add: finalPrompt_def orDefault_def truthy_def)

lemma endsWith_append [simp]: "endsWith (a @ b) b"
  by (simp add: endsWith_def)

text \<open>
  C9. The prompt of every submission a run makes is the user's prompt (or the default
  text when that is empty), then \<open>. \<close>, then the silence clause; so it ends with
  the clause whatever the user's prompt is.
\<close>

theorem silence_clause_always_appended:
  "finalPrompt cfg =
     (if prompt cfg = [] then lit ''Silent video, simple motion'' else prompt cfg) @
     lit ''. '' @ SILENCE_CLAUSE \<and>
   endsWith (finalPrompt cfg) SILENCE_CLAUSE \<and>
   (\<forall>req \<in> set (submissions (events (generateVideo fuel E imageFile cfg key vcfg t))).
      prompt_req req = finalPrompt cfg)"
proof -
  have "prompt_req req = finalPrompt cfg"
    if "req \<in> set (submissions (events (generateVideo fuel E imageFile cfg key vcfg t)))"
    for req
    using that submissions_generateVideo [of fuel E imageFile cfg key vcfg t]
    by (auto split: sum.splits simp: startRequest_def)
  moreover have "endsWith (finalPrompt cfg) SILENCE_CLAUSE"
    using endsWith_append [of "(if prompt cfg = [] then lit ''Silent video, simple motion'' else prompt cfg) @ lit ''. ''" SILENCE_CLAUSE]
    by (simp add: finalPrompt_eq)
  ultimately show ?thesis
    using finalPrompt_eq by blast
qed

lemma calm_run_submissions:
  "submissions (events (generateVideo 0 calmEnv png (demoConfig\<lparr>prompt := []\<rparr>) (Some (lit ''KEY'')) None 0)) =
     [startRequest png (demoConfig\<lparr>prompt := []\<rparr>) (lit ''aW1n'')]"
  by code_simp

theorem silence_clause_witness:
  "prompt_req (hd (submissions (events (generateVideo 0 calmEnv png (demoConfig\<lparr>prompt := []\<rparr>) (Some (lit ''KEY'')) None 0)))) =
     lit ''Silent video, simple motion. (Video must be completely silent, no sound, no music, no audio track)''"
proof -
  let ?c = "demoConfig\<lparr>prompt := []\<rparr>"
  let ?subs = "submissions (events (generateVideo 0 calmEnv png ?c (Some (lit ''KEY'')) None 0))"
  have mem: "hd ?subs \<in> set ?subs"
    by (simp add: calm_run_submissions)
  have "\<forall>req \<in> set ?subs. prompt_req req = finalPrompt ?c"
    using silence_clause_always_appended [of ?c 0 calmEnv png "Some (lit ''KEY'')" None 0] by blast
  then have "prompt_req (hd ?subs) = finalPrompt ?c"
    using mem by blast
  also have "finalPrompt ?c =
      lit ''Silent video, simple motion. (Video must be completely silent, no sound, no music, no audio track)''"
    by (simp add: finalPrompt_eq demoConfig_def SILENCE_CLAUSE_def lit_append [symmetric])
  finally show ?thesis .
qed

section \<open>Initialisation: properties\<close>

lemma resolvedKey_eq: "orElse (map_option trim key) (API_KEY E) = resolvedKey E key"
  by (cases key) (simp_all add: orElse_def truthy_def resolvedKey_def)

lemma initClient_delegated:
  "delegated vcfg \<Longrightarrow>
   initClient E key vcfg =
     (if location (the vcfg) = [] then Inl MissingLocation
      else Inr (VertexClient (projectId (the vcfg)) (location (the vcfg))
             (trim (accessToken (the vcfg))), True))"
  by (cases vcfg) (simp_all add: delegated_def initClient_def MissingLocation_def Let_def)

lemma initClient_direct:
  "\<not> delegated vcfg \<Longrightarrow>
   initClient E key vcfg =
     (case sanitizeKey (resolvedKey E key) of
        None \<Rightarrow> Inl MissingCredentials
      | Some k \<Rightarrow> if k = [] then Inl MissingCredentials else Inr (ApiKeyClient k, False))"
  by (cases vcfg; cases "sanitizeKey (resolvedKey E key)")
     (auto simp add: delegated_def initClient_def MissingCredentials_def Let_def resolvedKey_eq
       truthy_def)

lemma generateVideo_init_fails:
  "initClient E key vcfg = Inl e \<Longrightarrow> \<not> aborted E t \<Longrightarrow>
   generateVideo fuel E f cfg key vcfg t = (Some (Inl e), t, [])"
  by (simp add: generateVideo_def)

text \<open>
  C7. Vertex mode is chosen exactly when the Vertex configuration has a non-empty project
  id and a non-empty access token; then an empty location is the error MissingLocation.
  In every other case the key is the explicit key if one is supplied, else the
  environment's, sanitised, and an absent or empty result is the error
  MissingCredentials. A run whose initialisation fails ends with that error without
  having done anything: no encoding, no submission, no wait.
\<close>

theorem credential_resolution:
  "(delegated vcfg \<longrightarrow> location (the vcfg) = [] \<longrightarrow> initClient E key vcfg = Inl MissingLocation) \<and>
   (delegated vcfg \<longrightarrow> location (the vcfg) \<noteq> [] \<longrightarrow>
      initClient E key vcfg =
        Inr (VertexClient (projectId (the vcfg)) (location (the vcfg))
               (trim (accessToken (the vcfg))), True)) \<and>
   (\<not> delegated vcfg \<longrightarrow>
      initClient E key vcfg =
        (case sanitizeKey (resolvedKey E key) of
           None \<Rightarrow> Inl MissingCredentials
         | Some k \<Rightarrow> if k = [] then Inl MissingCredentials else Inr (ApiKeyClient k, False))) \<and>
   ((\<exists>ai. initClient E key vcfg = Inr (ai, True)) \<or> initClient E key vcfg = Inl MissingLocation
      \<longleftrightarrow> delegated vcfg) \<and>
   (\<forall>e. initClient E key vcfg = Inl e \<longrightarrow> \<not> aborted E t \<longrightarrow>
      generateVideo fuel E imageFile cfg key vcfg t = (Some (Inl e), t, []))"
proof -
  have ne: "MissingCredentials \<noteq> MissingLocation"
    by (simp add: MissingCredentials_def MissingLocation_def newError_def)
  have "((\<exists>ai. initClient E key vcfg = Inr (ai, True)) \<or> initClient E key vcfg = Inl MissingLocation)
      \<longleftrightarrow> delegated vcfg"
  proof (cases "delegated vcfg")
    case True
    then show ?thesis
      by (simp add: initClient_delegated)
  next
    case False
    then show ?thesis
      using ne by (auto simp: initClient_direct split: option.splits if_splits)
  qed
  then show ?thesis
    using initClient_delegated [of vcfg E key] initClient_direct [of vcfg E key]
      generateVideo_init_fails [of E key vcfg _ t fuel imageFile cfg]
    by simp
qed

theorem credential_resolution_witness:
  "generateVideo 0 calmEnv png demoConfig None (Some (demoVertex\<lparr>location := []\<rparr>)) 0 =
     (Some (Inl MissingLocation), 0, []) \<and>
   initClient calmEnv None (Some demoVertex) =
     Inr (VertexClient (lit ''proj'') (lit ''us-central1'') (lit ''ya29''), True) \<and>
   initClient calmEnv (Some (lit '' \"KEY\" '')) (Some (demoVertex\<lparr>accessToken := []\<rparr>)) =
     Inr (ApiKeyClient (lit ''KEY''), False) \<and>
   generateVideo 0 calmEnv png demoConfig (Some (lit ''  '')) None 0 =
     (Some (Inl MissingCredentials), 0, [])"
proof -
  have d1: "delegated (Some (demoVertex\<lparr>location := []\<rparr>))" "delegated (Some demoVertex)"
    and d2: "\<not> delegated (Some (demoVertex\<lparr>accessToken := []\<rparr>))" "\<not> delegated None"
    by (simp_all add: delegated_def demoVertex_def)
  have na: "\<not> aborted calmEnv 0"
    by (simp add: aborted_def calmEnv_def)
  have tr: "trim (lit ''ya29'') = lit ''ya29''"
    by (simp add: trim_def lit_def is_ws_def)
  have k1: "sanitizeKey (resolvedKey calmEnv (Some (lit '' \"KEY\" ''))) = Some (lit ''KEY'')"
    by code_simp
  have k2: "sanitizeKey (resolvedKey calmEnv (Some (lit ''  ''))) = None"
    by code_simp
  have a: "generateVideo 0 calmEnv png demoConfig None (Some (demoVertex\<lparr>location := []\<rparr>)) 0 =
     (Some (Inl MissingLocation), 0, [])"
    using credential_resolution [of "Some (demoVertex\<lparr>location := []\<rparr>)" calmEnv None 0 0 png demoConfig]
      d1 na by simp
  have b: "initClient calmEnv None (Some demoVertex) =
     Inr (VertexClient (lit ''proj'') (lit ''us-central1'') (lit ''ya29''), True)"
    using credential_resolution [of "Some demoVertex" calmEnv None 0 0 png demoConfig] d1
    by (simp add: demoVertex_def tr)
  have c: "initClient calmEnv (Some (lit '' \"KEY\" '')) (Some (demoVertex\<lparr>accessToken := []\<rparr>)) =
     Inr (ApiKeyClient (lit ''KEY''), False)"
    using credential_resolution [of "Some (demoVertex\<lparr>accessToken := []\<rparr>)" calmEnv
        "Some (lit '' \"KEY\" '')" 0 0 png demoConfig] d2
    by (simp add: k1)
  have d: "generateVideo 0 calmEnv png demoConfig (Some (lit ''  '')) None 0 =
     (Some (Inl MissingCredentials), 0, [])"
    using credential_resolution [of None calmEnv "Some (lit ''  '')" 0 0 png demoConfig] d2 na
    by (simp add: k2)
  show ?thesis
    using a b c d by simp
qed

section \<open>Result extraction: properties\<close>

lemma extractResult_error:
  "error_op op = Some m \<Longrightarrow>
   extractResult op =
     Inl (newError (if m = None \<or> m = Some [] then lit ''Unknown error during video generation''
                    else the m))"
  by (cases m) (auto simp: extractResult_def orDefault_def truthy_def)

lemma extractResult_filtered:
  "error_op op = None \<Longrightarrow> filterReasons op = Some (reason # rs) \<Longrightarrow>
   extractResult op = Inl (ContentFiltered reason)"
  by (auto simp: extractResult_def filterReasons_def payload_def ContentFiltered_def Let_def
      split: option.splits)

lemma extractResult_locator:
  "error_op op = None \<Longrightarrow> filterReasons op = None \<or> filterReasons op = Some [] \<Longrightarrow>
   extractResult op =
     (case firstLocator op of
        None \<Rightarrow> Inl NoResultLocator
      | Some u \<Rightarrow> if u = [] then Inl NoResultLocator else Inr u)"
  by (auto simp: extractResult_def filterReasons_def firstLocator_def payload_def
      NoResultLocator_def Let_def truthy_def
      split: option.splits list.splits)

lemma generateVideo_extract_fails:
  assumes "\<not> aborted E t" "initClient E key vcfg = Inr (ai, uv)" "fileToBase64 E t = Inr b"
    and "startLoop E ai (startRequest f cfg b) 0 20000 (Suc t) = (Inr op0, t1, ev1)"
    and "truthy (name_op op0)" "wait E 10000 t1 = (Inr (), t2, ev2)"
    and "pollLoop fuel E ai op0 0 t2 = (Some (Inr op), t3, ev3)"
    and "extractResult op = Inl e"
  shows "outcome (generateVideo fuel E f cfg key vcfg t) = Some (Inl e)"
  using assms by (simp add: generateVideo_def)


text \<open>
  C6. Result extraction checks, in this order: an error payload (the run fails with its
  message, or with a generic message when the message is absent or empty); a non-empty
  list of moderation-filter reasons (the run fails with ContentFiltered and the first
  reason, whether or not a video locator is present); the first produced video's locator
  (NoResultLocator when it is absent or empty). A failure of the extraction is the
  outcome of the run.
\<close>

theorem result_extraction_order:
  "(error_op op = Some m \<longrightarrow>
      extractResult op =
        Inl (newError (if m = None \<or> m = Some [] then lit ''Unknown error during video generation''
                       else the m))) \<and>
   (error_op op = None \<longrightarrow> filterReasons op = Some (reason # rs) \<longrightarrow>
      extractResult op = Inl (ContentFiltered reason)) \<and>
   (error_op op = None \<longrightarrow> filterReasons op = None \<or> filterReasons op = Some [] \<longrightarrow>
      extractResult op =
        (case firstLocator op of
           None \<Rightarrow> Inl NoResultLocator
         | Some u \<Rightarrow> if u = [] then Inl NoResultLocator else Inr u)) \<and>
   (\<not> aborted E t \<longrightarrow> initClient E key vcfg = Inr (ai, uv) \<longrightarrow> fileToBase64 E t = Inr b \<longrightarrow>
    startLoop E ai (startRequest imageFile cfg b) 0 20000 (Suc t) = (Inr op0, t1, ev1) \<longrightarrow>
    truthy (name_op op0) \<longrightarrow> wait E 10000 t1 = (Inr (), t2, ev2) \<longrightarrow>
    pollLoop fuel E ai op0 0 t2 = (Some (Inr op), t3, ev3) \<longrightarrow> extractResult op = Inl e \<longrightarrow>
      outcome (generateVideo fuel E imageFile cfg key vcfg t) = Some (Inl e))"
  using extractResult_error [of op m] extractResult_filtered [of op reason rs]
    extractResult_locator [of op]
    generateVideo_extract_fails [of E t key vcfg ai uv b imageFile cfg op0 t1 ev1 t2 ev2 fuel op t3 ev3 e]
  by blast

lemma filteredOp_facts:
  "error_op filteredOp = None" "filterReasons filteredOp = Some (lit ''violence'' # [lit ''other''])"
  "firstLocator filteredOp = Some (lit ''https://video.example/1'')"
  "error_op doneOp = None" "filterReasons doneOp = None"
  "firstLocator doneOp = Some (lit ''https://video.example/1'')"
  "error_op (doneOp\<lparr>error_op := Some None\<rparr>) = Some None"
  "error_op (doneOp\<lparr>response_op := None\<rparr>) = None"
  "filterReasons (doneOp\<lparr>response_op := None\<rparr>) = None"
  "firstLocator (doneOp\<lparr>response_op := None\<rparr>) = None"
  by (simp_all add: filteredOp_def doneOp_def filterReasons_def firstLocator_def payload_def)

theorem result_extraction_witness:
  "extractResult filteredOp = Inl (ContentFiltered (lit ''violence'')) \<and>
   extractResult doneOp = Inr (lit ''https://video.example/1'') \<and>
   extractResult (doneOp\<lparr>error_op := Some None\<rparr>) =
     Inl (newError (lit ''Unknown error during video generation'')) \<and>
   extractResult (doneOp\<lparr>response_op := None\<rparr>) = Inl NoResultLocator \<and>
   outcome (generateVideo 0 filteredEnv png demoConfig (Some (lit ''KEY'')) None 0) =
     Some (Inl (ContentFiltered (lit ''violence'')))"
proof -
  let ?ai = "ApiKeyClient (lit ''KEY'')"
  let ?req = "startRequest png demoConfig (lit ''aW1n'')"
  have h1: "\<not> aborted filteredEnv 0"
    by (simp add: aborted_def filteredEnv_def calmEnv_def)
  have h2: "initClient filteredEnv (Some (lit ''KEY'')) None = Inr (?ai, False)"
    by code_simp
  have h3: "fileToBase64 filteredEnv 0 = Inr (lit ''aW1n'')"
    by (simp add: filteredEnv_def calmEnv_def)
  have h4: "startLoop filteredEnv ?ai ?req 0 20000 (Suc 0) = (Inr filteredOp, 2, [EvSubmit ?ai ?req])"
    by (simp add: startLoop.simps aborted_def filteredEnv_def calmEnv_def)
  have h5: "truthy (name_op filteredOp)"
    by (simp add: truthy_def filteredOp_def doneOp_def)
  have h6: "wait filteredEnv 10000 2 = (Inr (), 3, [EvWait 10000])"
    by (simp add: wait_def aborted_def filteredEnv_def calmEnv_def)
  have h7: "pollLoop 0 filteredEnv ?ai filteredOp 0 3 = (Some (Inr filteredOp), 3, [])"
    by (simp add: filteredOp_def doneOp_def)
  have a: "extractResult filteredOp = Inl (ContentFiltered (lit ''violence''))"
    using result_extraction_order [of filteredOp None "lit ''violence''" "[lit ''other'']"]
    by (simp add: filteredOp_facts)
  have b: "extractResult doneOp = Inr (lit ''https://video.example/1'')"
    using result_extraction_order [of doneOp None] by (simp add: filteredOp_facts)
  have c: "extractResult (doneOp\<lparr>error_op := Some None\<rparr>) =
     Inl (newError (lit ''Unknown error during video generation''))"
    using result_extraction_order [of "doneOp\<lparr>error_op := Some None\<rparr>" None]
    by (simp add: filteredOp_facts)
  have d: "extractResult (doneOp\<lparr>response_op := None\<rparr>) = Inl NoResultLocator"
    using result_extraction_order [of "doneOp\<lparr>response_op := None\<rparr>" None]
    by (simp add: filteredOp_facts)
  have e: "outcome (generateVideo 0 filteredEnv png demoConfig (Some (lit ''KEY'')) None 0) =
     Some (Inl (ContentFiltered (lit ''violence'')))"
    using result_extraction_order [of filteredOp None "lit ''violence''" "[lit ''other'']"
        filteredEnv 0 "Some (lit ''KEY'')" None ?ai False "lit ''aW1n''" png demoConfig filteredOp
        2 "[EvSubmit ?ai ?req]" 3 "[EvWait 10000]" 0 3 "[]" "ContentFiltered (lit ''violence'')"]
      h1 h2 h3 h4 h5 h6 h7 a
    by simp
  show ?thesis
    using a b c d e by simp
qed

section \<open>Starting the generation: properties\<close>

lemma aborted_mono: "\<not> aborted E T \<Longrightarrow> t \<le> T \<Longrightarrow> \<not> aborted E t"
  by (auto simp: aborted_def split: option.splits)

lemma not_aborted_abortAt: "\<not> aborted E T \<Longrightarrow> t < T \<Longrightarrow> abortAt E \<noteq> Some t"
  by (auto simp: aborted_def)

lemma wait_calm: "\<not> aborted E (Suc t) \<Longrightarrow> wait E ms t = (Inr (), Suc t, [EvWait ms])"
  using aborted_mono [of E "Suc t" t] not_aborted_abortAt [of E "Suc t" t]
  by (simp add: wait_def)

lemma waits_wait: "\<not> aborted E t \<Longrightarrow> waits (events (wait E ms t)) = [ms]"
  by (simp add: wait_def)

lemma map_funpow_shift:
  "b # map (\<lambda>i. (f ^^ i) (f b)) [0..<k] = map (\<lambda>i. (f ^^ i) b) [0..<Suc k]"
proof -
  have "[0..<Suc k] = 0 # map Suc [0..<k]"
    by (simp add: upt_conv_Cons map_Suc_upt del: upt_Suc)
  then have "map (\<lambda>i. (f ^^ i) b) [0..<Suc k] = b # map (\<lambda>i. (f ^^ Suc i) b) [0..<k]"
    by (simp add: comp_def del: upt_Suc funpow.simps)
  then show ?thesis
    by (simp add: funpow_swap1 del: upt_Suc)
qed

lemma waits_startLoop:
  "waits (events (startLoop E ai req a b t)) =
     map (\<lambda>i. (backoffStep ^^ i) b) [0..<length (waits (events (startLoop E ai req a b t)))]"
proof (induction E ai req a b t rule: startLoop.induct)
  case (1 E ai req a b t)
  let ?b' = "min (b * (3 / 2)) 120000"
  show ?case
  proof (cases "\<not> aborted E t \<and> (\<exists>e. generateVideos E t = Inl e \<and> \<not> aborted E (Suc t) \<and>
      (isRateLimit_start e \<or> isTransient e) \<and> \<not> Suc a > MAX_START_RETRIES \<and>
      abortAt E \<noteq> Some (Suc t))")
    case True
    then obtain e where e: "\<not> aborted E t" "generateVideos E t = Inl e" "\<not> aborted E (Suc t)"
      "isRateLimit_start e \<or> isTransient e" "\<not> Suc a > MAX_START_RETRIES"
      and w: "wait E b (Suc t) = (Inr (), Suc (Suc t), [EvWait b])"
      by (auto simp: wait_def)
    let ?rec = "startLoop E ai req (Suc a) ?b' (Suc (Suc t))"
    obtain ws where ws: "waits (events ?rec) = ws"
      by simp
    have "ws = map (\<lambda>i. (backoffStep ^^ i) ?b') [0..<length ws]"
      using 1 [OF e(1,2,3,4,5) w [symmetric]] ws by simp
    then have IH: "ws = map (\<lambda>i. (backoffStep ^^ i) (backoffStep b)) [0..<length ws]"
      by (simp add: backoffStep_def)
    have unfold: "waits (events (startLoop E ai req a b t)) = b # ws"
      using e w ws by (subst startLoop.simps) simp
    have "b # ws = map (\<lambda>i. (backoffStep ^^ i) b) [0..<Suc (length ws)]"
      using IH map_funpow_shift [of b backoffStep "length ws"] by simp
    then show ?thesis
      unfolding unfold by simp
  next
    case False
    then have "waits (events (startLoop E ai req a b t)) = [] \<or>
        waits (events (startLoop E ai req a b t)) = [b]"
      by (subst (1 2) startLoop.simps) (auto simp: wait_def split: sum.splits)
    then show ?thesis
      by auto
  qed
qed

lemma backoffStep_closed: "(backoffStep ^^ n) 20000 = backoffSeq n"
proof (induction n)
  case 0
  show ?case by (simp add: backoffSeq_def)
next
  case (Suc n)
  have pos: "(0::rat) < 20000 * (3 / 2) ^ n"
    by simp
  have "(backoffStep ^^ Suc n) 20000 = backoffStep (backoffSeq n)"
    using Suc by simp
  also have "\<dots> = backoffSeq (Suc n)"
    using pos by (simp add: backoffSeq_def backoffStep_def min_def)
  finally show ?case .
qed

lemma backoffSeq_first:
  "map backoffSeq [0..<7] = [20000, 30000, 45000, 67500, 101250, 120000, 120000]"
  by (simp add: backoffSeq_def upt_rec [of 0] eval_nat_numeral upt_rec [of "Suc _"])

lemma backoffSeq_capped: "5 \<le> n \<Longrightarrow> backoffSeq n = 120000"
proof -
  assume "5 \<le> n"
  then have "(3 / 2 :: rat) ^ 5 \<le> (3 / 2) ^ n"
    by (intro power_increasing) simp_all
  then have "(120000 :: rat) \<le> 20000 * (3 / 2) ^ n"
    by (simp add: eval_nat_numeral)
  then show ?thesis
    by (simp add: backoffSeq_def min_def)
qed

lemma startLoop_exhausts:
  assumes "alwaysRetryable E" "a \<le> 50" "\<not> aborted E (t + 2 * (50 - a) + 1)"
  shows "startLoop E ai req a b t =
     (Inl RetriesExhausted, t + 2 * (50 - a) + 1, events (startLoop E ai req a b t)) \<and>
     submissions (events (startLoop E ai req a b t)) = replicate (51 - a) req \<and>
     length (waits (events (startLoop E ai req a b t))) = 50 - a"
  using assms
proof (induction E ai req a b t rule: startLoop.induct)
  case (1 E ai req a b t)
  have "case generateVideos E t of Inl e \<Rightarrow> retryable e | Inr _ \<Rightarrow> False"
    using "1.prems"(1) by (simp add: alwaysRetryable_def)
  then obtain e where e: "generateVideos E t = Inl e" "isRateLimit_start e \<or> isTransient e"
    by (cases "generateVideos E t") (auto simp: retryable_def)
  have na: "\<not> aborted E t" "\<not> aborted E (Suc t)"
    using aborted_mono [OF "1.prems"(3)] by simp_all
  show ?case
  proof (cases "a = 50")
    case True
    then show ?thesis
      using e na
      by (subst (1 2 3 4) startLoop.simps) (simp add: MAX_START_RETRIES_def RetriesExhausted_def)
  next
    case False
    then have lt: "\<not> Suc a > MAX_START_RETRIES" "Suc a \<le> 50"
      using "1.prems"(2) by (simp_all add: MAX_START_RETRIES_def)
    have na2: "\<not> aborted E (Suc (Suc t))"
      using aborted_mono [OF "1.prems"(3), of "Suc (Suc t)"] False "1.prems"(2) by simp
    have w: "wait E b (Suc t) = (Inr (), Suc (Suc t), [EvWait b])"
      using wait_calm [OF na2] .
    define r where "r = startLoop E ai req (Suc a) (min (b * (3 / 2)) 120000) (Suc (Suc t))"
    have tm: "Suc (Suc t) + 2 * (50 - Suc a) + 1 = t + 2 * (50 - a) + 1"
      using lt by simp
    have p3: "\<not> aborted E (Suc (Suc t) + 2 * (50 - Suc a) + 1)"
      by (subst tm) (rule "1.prems"(3))
    note IH = "1.IH" [OF na(1) e(1) na(2) e(2) lt(1) w [symmetric] refl refl "1.prems"(1) lt(2) p3,
        unfolded tm, folded r_def]
    have unfold: "startLoop E ai req a b t =
        prepend [EvSubmit ai req, EvProgress (retryMessage e b (Suc a)), EvWait b] r"
      unfolding r_def using e na lt w by (subst startLoop.simps) (simp add: prepend_def split: prod.splits)
    have cnt: "51 - a = Suc (51 - Suc a)" "50 - a = Suc (50 - Suc a)"
      using lt by simp_all
    obtain x t' evs where rec: "r = (x, t', evs)"
      by (cases r) auto
    show ?thesis
      unfolding unfold using IH by (simp add: rec prepend_def cnt)
  qed
qed


lemma generateVideo_exhausts:
  assumes "alwaysRetryable E" "\<not> aborted E (t + 102)"
    and "initClient E key vcfg = Inr (ai, uv)" "fileToBase64 E t = Inr b"
  shows "outcome (generateVideo fuel E f cfg key vcfg t) = Some (Inl RetriesExhausted) \<and>
     submissions (events (generateVideo fuel E f cfg key vcfg t)) = replicate 51 (startRequest f cfg b) \<and>
     waits (events (generateVideo fuel E f cfg key vcfg t)) = map backoffSeq [0..<50]"
proof -
  let ?req = "startRequest f cfg b"
  define r where "r = startLoop E ai ?req 0 20000 (Suc t)"
  have na: "\<not> aborted E t"
    using aborted_mono [OF assms(2)] by simp
  have "\<not> aborted E (Suc t + 2 * (50 - 0) + 1)"
    using assms(2) by (simp add: eval_nat_numeral)
  from startLoop_exhausts [OF assms(1) _ this, of ai ?req 20000]
  have sl: "r = (Inl RetriesExhausted, Suc t + 2 * (50 - 0) + 1, events r)"
    and subs: "submissions (events r) = replicate 51 ?req"
    and len: "length (waits (events r)) = 50"
    by (simp_all add: r_def)
  have "waits (events r) = map (\<lambda>i. (backoffStep ^^ i) 20000) [0..<length (waits (events r))]"
    unfolding r_def by (rule waits_startLoop)
  then have ws: "waits (events r) = map backoffSeq [0..<50]"
    by (simp only: len backoffStep_closed)
  obtain t1 ev1 where r: "r = (Inl RetriesExhausted, t1, ev1)"
    using sl by blast
  have "generateVideo fuel E f cfg key vcfg t =
      (Some (Inl RetriesExhausted), t1,
       [EvProgress (lit ''Encoding image...''), EvEncode f,
        EvProgress (lit ''Initializing generation...'')] @ ev1)"
    using na assms(3,4) r by (simp add: generateVideo_def r_def [symmetric] prepend_def)
  then show ?thesis
    using subs ws by (simp add: r)
qed

text \<open>
  C2. In a run that is not cancelled and whose submissions all fail with a rate-limited or
  transient-server failure, the 51st failure ends the run with RetriesExhausted, and the
  run has made exactly 51 submissions: there is no 52nd.
\<close>

theorem retries_exhausted_after_51:
  assumes "alwaysRetryable E" and "\<not> aborted E (t + 102)"
    and "initClient E key vcfg = Inr (ai, usingVertex)" and "fileToBase64 E t = Inr b"
  shows "outcome (generateVideo fuel E imageFile cfg key vcfg t) = Some (Inl RetriesExhausted) \<and>
     message_err RetriesExhausted = Some (lit
       ''Rate limit or server capacity exhausted after multiple retries. Please try again later.'') \<and>
     submissions (events (generateVideo fuel E imageFile cfg key vcfg t)) =
       replicate 51 (startRequest imageFile cfg b)"
  using generateVideo_exhausts [OF assms, of fuel imageFile cfg]
  by (simp add: RetriesExhausted_def newError_def)

lemma busyEnv_facts:
  "alwaysRetryable busyEnv" "\<not> aborted busyEnv (0 + 102)"
  "initClient busyEnv (Some (lit ''KEY'')) None = Inr (ApiKeyClient (lit ''KEY''), False)"
  "fileToBase64 busyEnv 0 = Inr (lit ''aW1n'')"
proof -
  show "alwaysRetryable busyEnv"
    by (simp add: alwaysRetryable_def busyEnv_def calmEnv_def retryable_def isRateLimit_start_def
        rateLimited_def)
  show "\<not> aborted busyEnv (0 + 102)"
    by (simp add: aborted_def busyEnv_def calmEnv_def)
  show "initClient busyEnv (Some (lit ''KEY'')) None = Inr (ApiKeyClient (lit ''KEY''), False)"
    by code_simp
  show "fileToBase64 busyEnv 0 = Inr (lit ''aW1n'')"
    by (simp add: busyEnv_def calmEnv_def)
qed

theorem retries_exhausted_witness:
  "outcome (generateVideo 0 busyEnv png demoConfig (Some (lit ''KEY'')) None 0) =
     Some (Inl RetriesExhausted) \<and>
   length (submissions (events (generateVideo 0 busyEnv png demoConfig (Some (lit ''KEY'')) None 0))) = 51"
  using retries_exhausted_after_51 [OF busyEnv_facts, of 0 png demoConfig]
  by simp

text \<open>
  C4. The waits of the submission loop are, in order, the elements of the sequence
  20000, 30000, 45000, 67500, 101250, 120000, 120000, ...: the wait before the n-th retry
  is 20000 times 1.5 to the power n - 1, capped at 120000. A run whose submissions all
  fail retryably makes the first 50 of them, and no other wait.
\<close>

theorem backoff_sequence:
  "waits (events (startLoop E ai req 0 20000 t)) =
     map backoffSeq [0..<length (waits (events (startLoop E ai req 0 20000 t)))] \<and>
   (alwaysRetryable E \<longrightarrow> \<not> aborted E (t + 102) \<longrightarrow>
    initClient E key vcfg = Inr (ai, usingVertex) \<longrightarrow> fileToBase64 E t = Inr b \<longrightarrow>
      waits (events (generateVideo fuel E imageFile cfg key vcfg t)) = map backoffSeq [0..<50]) \<and>
   map backoffSeq [0..<7] = [20000, 30000, 45000, 67500, 101250, 120000, 120000] \<and>
   (\<forall>n\<ge>5. backoffSeq n = 120000)"
  using waits_startLoop [of E ai req 0 20000 t]
    generateVideo_exhausts [of E t key vcfg ai usingVertex b fuel imageFile cfg]
    backoffSeq_first backoffSeq_capped
  by (simp add: backoffStep_closed)

theorem backoff_sequence_witness:
  "take 7 (waits (events (generateVideo 0 busyEnv png demoConfig (Some (lit ''KEY'')) None 0))) =
     [20000, 30000, 45000, 67500, 101250, 120000, 120000] \<and>
   length (waits (events (generateVideo 0 busyEnv png demoConfig (Some (lit ''KEY'')) None 0))) = 50 \<and>
   backoffSeq 49 = 120000"
proof -
  have "take 7 (map backoffSeq [0..<50]) = map backoffSeq [0..<7]"
    by (simp add: take_map)
  then show ?thesis
    using backoff_sequence [of busyEnv "ApiKeyClient (lit ''KEY'')" "startRequest png demoConfig (lit ''aW1n'')"
        0 "Some (lit ''KEY'')" None False "lit ''aW1n''" 0 png demoConfig]
      busyEnv_facts
    by simp
qed

section \<open>Polling: properties\<close>

lemma polls_append [simp]: "polls (a @ b) = polls a @ polls b"
  by (induction a rule: polls.induct) simp_all

lemma pollLoop_refreshed:
  assumes "\<not> done_op op" "\<not> aborted E (Suc t)" "getVideosOperation E (Suc t) = Inr result"
  shows "pollLoop (Suc fuel) E ai op rc t =
     prepend [EvWait 10000, EvPoll ai op] (pollLoop fuel E ai result 0 (t + 2))"
  using assms aborted_mono [OF assms(2), of t] by (simp add: wait_calm)

lemma pollLoop_not_found:
  assumes "\<not> done_op op" "\<not> aborted E (t + 2)" "getVideosOperation E (Suc t) = Inl e" "isNotFound e"
  shows "pollLoop (Suc fuel) E ai op rc t =
     (if Suc rc \<ge> MAX_POLLING_RETRIES
      then (Some (Inl PollingTimeout), t + 2, [EvWait 10000, EvPoll ai op])
      else prepend [EvWait 10000, EvPoll ai op] (pollLoop fuel E ai op (Suc rc) (t + 2)))"
  using assms aborted_mono [OF assms(2), of t] aborted_mono [OF assms(2), of "Suc t"]
  by (simp add: wait_calm PollingTimeout_def prepend_def)

lemma pollLoop_rate_limited:
  assumes "\<not> done_op op" "\<not> aborted E (t + 3)" "getVideosOperation E (Suc t) = Inl e"
    "\<not> isNotFound e" "isRateLimit_poll e"
  shows "pollLoop (Suc fuel) E ai op rc t =
     prepend [EvWait 10000, EvPoll ai op, EvWait 20000] (pollLoop fuel E ai op rc (t + 3))"
proof -
  have na: "\<not> aborted E t" "\<not> aborted E (Suc t)" "\<not> aborted E (Suc (Suc t))"
    "\<not> aborted E (Suc (Suc (Suc t)))"
    using aborted_mono [OF assms(2)] by (simp_all add: eval_nat_numeral)
  obtain x t' evs where r: "pollLoop fuel E ai op rc (Suc (Suc (Suc t))) = (x, t', evs)"
    by (cases "pollLoop fuel E ai op rc (Suc (Suc (Suc t)))") auto
  show ?thesis
    using assms(1,3,4,5) na
    by (simp add: wait_calm prepend_def r eval_nat_numeral)
qed

lemma pollLoop_fatal:
  assumes "\<not> done_op op" "\<not> aborted E (t + 2)" "getVideosOperation E (Suc t) = Inl e"
    "\<not> isNotFound e" "\<not> isRateLimit_poll e"
  shows "pollLoop (Suc fuel) E ai op rc t = (Some (Inl e), t + 2, [EvWait 10000, EvPoll ai op])"
  using assms aborted_mono [OF assms(2), of t] aborted_mono [OF assms(2), of "Suc t"]
  by (simp add: wait_calm prepend_def)

lemma pollLoop_times_out:
  assumes "alwaysNotFound E" "\<not> done_op op"
  shows "rc < 120 \<Longrightarrow> 120 - rc \<le> fuel \<Longrightarrow> \<not> aborted E (t + 2 * (120 - rc)) \<Longrightarrow>
     pollLoop fuel E ai op rc t =
       (Some (Inl PollingTimeout), t + 2 * (120 - rc),
        concat (replicate (120 - rc) [EvWait 10000, EvPoll ai op]))"
proof (induction fuel arbitrary: rc t)
  case 0
  then show ?case by simp
next
  case (Suc fuel)
  have "case getVideosOperation E (Suc t) of Inl e \<Rightarrow> isNotFound e | Inr _ \<Rightarrow> False"
    using assms(1) by (simp add: alwaysNotFound_def)
  then obtain e where e: "getVideosOperation E (Suc t) = Inl e" "isNotFound e"
    by (cases "getVideosOperation E (Suc t)") auto
  have na: "\<not> aborted E (t + 2)"
    using aborted_mono [OF Suc.prems(3), of "t + 2"] Suc.prems(1) by simp
  note step = pollLoop_not_found [OF assms(2) na e, of fuel ai rc]
  show ?case
  proof (cases "rc = 119")
    case True
    then show ?thesis
      using step by (simp add: MAX_POLLING_RETRIES_def)
  next
    case False
    then have lt: "Suc rc < 120" "120 - Suc rc \<le> fuel"
      using Suc.prems(1,2) by simp_all
    have tm: "t + 2 + 2 * (120 - Suc rc) = t + 2 * (120 - rc)"
      using lt by simp
    have na': "\<not> aborted E (t + 2 + 2 * (120 - Suc rc))"
      by (subst tm) (rule Suc.prems(3))
    have cnt: "120 - rc = Suc (120 - Suc rc)"
      using lt by simp
    have "pollLoop (Suc fuel) E ai op rc t =
        prepend [EvWait 10000, EvPoll ai op] (pollLoop fuel E ai op (Suc rc) (t + 2))"
      using step lt by (simp add: MAX_POLLING_RETRIES_def)
    also have "\<dots> = (Some (Inl PollingTimeout), t + 2 * (120 - rc),
        concat (replicate (120 - rc) [EvWait 10000, EvPoll ai op]))"
      unfolding Suc.IH [OF lt na'] tm by (subst (2) cnt) (simp add: prepend_def)
    finally show ?thesis .
  qed
qed


lemma polls_wait [simp]: "polls (events (wait E ms t)) = []"
  by (simp add: wait_def)

lemma polls_startLoop [simp]: "polls (events (startLoop E ai req a b t)) = []"
proof (induction E ai req a b t rule: startLoop.induct)
  case (1 E ai req a b t)
  show ?case
    using 1 by (subst startLoop.simps) (auto split: sum.splits prod.splits simp: wait_def)
qed

lemma polls_rounds: "polls (concat (replicate n [EvWait ms, EvPoll ai op])) = replicate n op"
  by (induction n) simp_all

lemma generateVideo_times_out:
  assumes "\<not> aborted E t" "initClient E key vcfg = Inr (ai, uv)" "fileToBase64 E t = Inr b"
    and "startLoop E ai (startRequest f cfg b) 0 20000 (Suc t) = (Inr op0, t1, ev1)"
    and "truthy (name_op op0)" "\<not> done_op op0"
    and "alwaysNotFound E" "\<not> aborted E (t1 + 241)" "120 \<le> fuel"
  shows "outcome (generateVideo fuel E f cfg key vcfg t) = Some (Inl PollingTimeout) \<and>
     polls (events (generateVideo fuel E f cfg key vcfg t)) = replicate 120 op0"
proof -
  have w: "wait E 10000 t1 = (Inr (), Suc t1, [EvWait 10000])"
    using aborted_mono [OF assms(8), of "Suc t1"] by (simp add: wait_calm)
  have "\<not> aborted E (Suc t1 + 2 * (120 - 0))"
    using assms(8) by (simp add: eval_nat_numeral)
  from pollLoop_times_out [OF assms(7,6) _ _ this, of fuel ai] assms(9)
  have p: "pollLoop fuel E ai op0 0 (Suc t1) =
      (Some (Inl PollingTimeout), Suc t1 + 2 * (120 - 0),
       concat (replicate (120 - 0) [EvWait 10000, EvPoll ai op0]))"
    by simp
  have p0: "polls ev1 = []"
    using polls_startLoop [of E ai "startRequest f cfg b" 0 20000 "Suc t"] assms(4) by simp
  show ?thesis
    using assms(1,2,3,4,5) w p p0
    by (simp add: generateVideo_def prepend_def polls_rounds)
qed

text \<open>
  C3. In the polling loop a successful refresh replaces the snapshot and restarts the
  not-found counter at 0; a not-found failure adds 1 to the counter and, when it reaches
  120, ends the run with PollingTimeout; a rate-limited failure (that is not not-found)
  waits 20000 ms more and passes the counter on unchanged; any other failure ends the
  run with that failure. The counter starts at 0 whatever the submission loop did, so a
  run whose status checks are all not-found ends with PollingTimeout after exactly 120
  checks.
\<close>

theorem polling_policy:
  "(\<not> done_op op \<longrightarrow> \<not> aborted E (Suc t) \<longrightarrow> getVideosOperation E (Suc t) = Inr result \<longrightarrow>
      pollLoop (Suc fuel) E ai op rc t =
        prepend [EvWait 10000, EvPoll ai op] (pollLoop fuel E ai result 0 (t + 2))) \<and>
   (\<not> done_op op \<longrightarrow> \<not> aborted E (t + 2) \<longrightarrow> getVideosOperation E (Suc t) = Inl e \<longrightarrow>
    isNotFound e \<longrightarrow>
      pollLoop (Suc fuel) E ai op rc t =
        (if Suc rc \<ge> 120
         then (Some (Inl PollingTimeout), t + 2, [EvWait 10000, EvPoll ai op])
         else prepend [EvWait 10000, EvPoll ai op] (pollLoop fuel E ai op (Suc rc) (t + 2)))) \<and>
   (\<not> done_op op \<longrightarrow> \<not> aborted E (t + 3) \<longrightarrow> getVideosOperation E (Suc t) = Inl e \<longrightarrow>
    \<not> isNotFound e \<longrightarrow> isRateLimit_poll e \<longrightarrow>
      pollLoop (Suc fuel) E ai op rc t =
        prepend [EvWait 10000, EvPoll ai op, EvWait 20000] (pollLoop fuel E ai op rc (t + 3))) \<and>
   (\<not> done_op op \<longrightarrow> \<not> aborted E (t + 2) \<longrightarrow> getVideosOperation E (Suc t) = Inl e \<longrightarrow>
    \<not> isNotFound e \<longrightarrow> \<not> isRateLimit_poll e \<longrightarrow>
      pollLoop (Suc fuel) E ai op rc t = (Some (Inl e), t + 2, [EvWait 10000, EvPoll ai op])) \<and>
   (\<not> aborted E t0 \<longrightarrow> initClient E key vcfg = Inr (ai, usingVertex) \<longrightarrow>
    fileToBase64 E t0 = Inr b \<longrightarrow>
    startLoop E ai (startRequest imageFile cfg b) 0 20000 (Suc t0) = (Inr op0, t1, ev1) \<longrightarrow>
    truthy (name_op op0) \<longrightarrow> \<not> done_op op0 \<longrightarrow> alwaysNotFound E \<longrightarrow>
    \<not> aborted E (t1 + 241) \<longrightarrow> 120 \<le> fuel \<longrightarrow>
      outcome (generateVideo fuel E imageFile cfg key vcfg t0) = Some (Inl PollingTimeout) \<and>
      polls (events (generateVideo fuel E imageFile cfg key vcfg t0)) = replicate 120 op0)"
  using pollLoop_refreshed [of op E t result fuel ai rc]
    pollLoop_not_found [of op E t e fuel ai rc]
    pollLoop_rate_limited [of op E t e fuel ai rc]
    pollLoop_fatal [of op E t e fuel ai rc]
    generateVideo_times_out [of E t0 key vcfg ai usingVertex b imageFile cfg op0 t1 ev1 fuel]
  by (simp add: MAX_POLLING_RETRIES_def)

lemma lostEnv_facts:
  "\<not> aborted lostEnv 0"
  "initClient lostEnv (Some (lit ''KEY'')) None = Inr (ApiKeyClient (lit ''KEY''), False)"
  "fileToBase64 lostEnv 0 = Inr (lit ''aW1n'')"
  "startLoop lostEnv (ApiKeyClient (lit ''KEY'')) (startRequest png demoConfig (lit ''aW1n'')) 0 20000 (Suc 0) =
     (Inr pendingOp, 8,
      events (startLoop lostEnv (ApiKeyClient (lit ''KEY'')) (startRequest png demoConfig (lit ''aW1n'')) 0 20000 (Suc 0)))"
  "truthy (name_op pendingOp)" "\<not> done_op pendingOp"
  "alwaysNotFound lostEnv" "\<not> aborted lostEnv (8 + 241)"
proof -
  show "\<not> aborted lostEnv 0" "\<not> aborted lostEnv (8 + 241)"
    by (simp_all add: aborted_def lostEnv_def calmEnv_def)
  show "initClient lostEnv (Some (lit ''KEY'')) None = Inr (ApiKeyClient (lit ''KEY''), False)"
    by code_simp
  show "fileToBase64 lostEnv 0 = Inr (lit ''aW1n'')"
    by (simp add: lostEnv_def calmEnv_def)
  show "startLoop lostEnv (ApiKeyClient (lit ''KEY'')) (startRequest png demoConfig (lit ''aW1n'')) 0 20000 (Suc 0) =
     (Inr pendingOp, 8,
      events (startLoop lostEnv (ApiKeyClient (lit ''KEY'')) (startRequest png demoConfig (lit ''aW1n'')) 0 20000 (Suc 0)))"
    by code_simp
  show "truthy (name_op pendingOp)" "\<not> done_op pendingOp"
    by (simp_all add: pendingOp_def doneOp_def truthy_def)
  show "alwaysNotFound lostEnv"
    by (simp add: alwaysNotFound_def lostEnv_def calmEnv_def isNotFound_def notFound_def)
qed

lemma lostEnv_submissions:
  "length (submissions (events (startLoop lostEnv (ApiKeyClient (lit ''KEY''))
     (startRequest png demoConfig (lit ''aW1n'')) 0 20000 (Suc 0)))) = 4"
  by code_simp

lemma throttledEnv_facts:
  "\<not> done_op pendingOp" "\<not> aborted throttledEnv (0 + 3)"
  "getVideosOperation throttledEnv (Suc 0) = Inl rateLimited"
  "\<not> isNotFound rateLimited" "isRateLimit_poll rateLimited"
  "pollLoop 1 throttledEnv ai pendingOp 7 (0 + 3) = (Some (Inr doneOp), 5, [EvWait 10000, EvPoll ai pendingOp])"
proof -
  show "\<not> done_op pendingOp"
    by (simp add: pendingOp_def doneOp_def)
  show "\<not> aborted throttledEnv (0 + 3)"
    by (simp add: aborted_def throttledEnv_def calmEnv_def)
  show "getVideosOperation throttledEnv (Suc 0) = Inl rateLimited"
    by (simp add: throttledEnv_def calmEnv_def)
  show "\<not> isNotFound rateLimited"
    by code_simp
  show "isRateLimit_poll rateLimited"
    by (simp add: isRateLimit_poll_def rateLimited_def)
  show "pollLoop 1 throttledEnv ai pendingOp 7 (0 + 3) = (Some (Inr doneOp), 5, [EvWait 10000, EvPoll ai pendingOp])"
    by (simp add: eval_nat_numeral wait_def aborted_def throttledEnv_def calmEnv_def pendingOp_def doneOp_def prepend_def)
qed

lemma pollLoop_more_facts:
  "\<not> aborted forbiddenEnv (0 + 2)" "getVideosOperation forbiddenEnv (Suc 0) = Inl forbidden"
  "\<not> isNotFound forbidden" "\<not> isRateLimit_poll forbidden"
  "\<not> aborted calmEnv (Suc 0)" "getVideosOperation calmEnv (Suc 0) = Inr doneOp"
  "pollLoop 0 calmEnv ai doneOp 0 (0 + 2) = (Some (Inr doneOp), 2, [])"
proof -
  show "\<not> aborted forbiddenEnv (0 + 2)" "\<not> aborted calmEnv (Suc 0)"
    by (simp_all add: aborted_def forbiddenEnv_def calmEnv_def)
  show "getVideosOperation forbiddenEnv (Suc 0) = Inl forbidden"
    "getVideosOperation calmEnv (Suc 0) = Inr doneOp"
    by (simp_all add: forbiddenEnv_def calmEnv_def)
  show "\<not> isNotFound forbidden" "\<not> isRateLimit_poll forbidden"
    by code_simp+
  show "pollLoop 0 calmEnv ai doneOp 0 (0 + 2) = (Some (Inr doneOp), 2, [])"
    by (simp add: doneOp_def)
qed

theorem polling_policy_witness:
  "outcome (generateVideo 120 lostEnv png demoConfig (Some (lit ''KEY'')) None 0) = Some (Inl PollingTimeout) \<and>
   length (polls (events (generateVideo 120 lostEnv png demoConfig (Some (lit ''KEY'')) None 0))) = 120 \<and>
   length (submissions (events (startLoop lostEnv (ApiKeyClient (lit ''KEY''))
     (startRequest png demoConfig (lit ''aW1n'')) 0 20000 (Suc 0)))) = 4 \<and>
   pollLoop 2 throttledEnv (ApiKeyClient (lit ''KEY'')) pendingOp 7 0 =
     (Some (Inr doneOp), 5,
      [EvWait 10000, EvPoll (ApiKeyClient (lit ''KEY'')) pendingOp, EvWait 20000, EvWait 10000,
       EvPoll (ApiKeyClient (lit ''KEY'')) pendingOp]) \<and>
   pollLoop 1 forbiddenEnv (ApiKeyClient (lit ''KEY'')) pendingOp 0 0 =
     (Some (Inl forbidden), 2, [EvWait 10000, EvPoll (ApiKeyClient (lit ''KEY'')) pendingOp]) \<and>
   pollLoop 1 calmEnv (ApiKeyClient (lit ''KEY'')) pendingOp 5 0 =
     (Some (Inr doneOp), 2, [EvWait 10000, EvPoll (ApiKeyClient (lit ''KEY'')) pendingOp])"
proof -
  let ?ai = "ApiKeyClient (lit ''KEY'')"
  have a: "outcome (generateVideo 120 lostEnv png demoConfig (Some (lit ''KEY'')) None 0) = Some (Inl PollingTimeout) \<and>
      polls (events (generateVideo 120 lostEnv png demoConfig (Some (lit ''KEY'')) None 0)) = replicate 120 pendingOp"
    using polling_policy [where E = lostEnv and ai = ?ai and ?t0.0 = 0 and key = "Some (lit ''KEY'')"
        and vcfg = None and usingVertex = False and b = "lit ''aW1n''" and imageFile = png
        and cfg = demoConfig and ?op0.0 = pendingOp and ?t1.0 = 8 and fuel = 120] lostEnv_facts
    by simp
  have "pollLoop (Suc 1) throttledEnv ?ai pendingOp 7 0 =
      prepend [EvWait 10000, EvPoll ?ai pendingOp, EvWait 20000] (pollLoop 1 throttledEnv ?ai pendingOp 7 (0 + 3))"
    using polling_policy [where op = pendingOp and E = throttledEnv and t = 0 and fuel = 1
        and ai = ?ai and rc = 7 and e = rateLimited] throttledEnv_facts(1-5)
    by blast
  then have b: "pollLoop 2 throttledEnv ?ai pendingOp 7 0 =
     (Some (Inr doneOp), 5,
      [EvWait 10000, EvPoll ?ai pendingOp, EvWait 20000, EvWait 10000, EvPoll ?ai pendingOp])"
    unfolding throttledEnv_facts(6) by (simp add: prepend_def eval_nat_numeral del: pollLoop.simps)
  have c: "pollLoop (Suc 0) forbiddenEnv ?ai pendingOp 0 0 =
      (Some (Inl forbidden), 0 + 2, [EvWait 10000, EvPoll ?ai pendingOp])"
    using polling_policy [where op = pendingOp and E = forbiddenEnv and t = 0 and fuel = 0
        and ai = ?ai and rc = 0 and e = forbidden] throttledEnv_facts(1) pollLoop_more_facts(1-4)
    by blast
  have "pollLoop (Suc 0) calmEnv ?ai pendingOp 5 0 =
      prepend [EvWait 10000, EvPoll ?ai pendingOp] (pollLoop 0 calmEnv ?ai doneOp 0 (0 + 2))"
    using polling_policy [where op = pendingOp and E = calmEnv and t = 0 and fuel = 0
        and ai = ?ai and rc = 5 and result = doneOp] throttledEnv_facts(1) pollLoop_more_facts(5,6)
    by blast
  then have d: "pollLoop (Suc 0) calmEnv ?ai pendingOp 5 0 =
      (Some (Inr doneOp), 2, [EvWait 10000, EvPoll ?ai pendingOp])"
    unfolding pollLoop_more_facts(7) by (simp add: prepend_def del: pollLoop.simps)
  show ?thesis
    using a b c d lostEnv_submissions by (simp del: pollLoop.simps)
qed

section \<open>Download: properties\<close>

lemma fetched_append [simp]: "fetched (a @ b) = fetched a @ fetched b"
  by (induction a rule: fetched.induct) simp_all

lemma searchParams_set_key:
  "filter (\<lambda>p. fst p = n) (searchParams (searchParams_set n v u)) = [(n, v)] \<and>
   filter (\<lambda>p. fst p \<noteq> n) (searchParams (searchParams_set n v u)) =
     filter (\<lambda>p. fst p \<noteq> n) (searchParams u) \<and>
   base_url (searchParams_set n v u) = base_url u"
proof -
  let ?ps = "searchParams u"
  let ?P = "\<lambda>p. fst p \<noteq> n"
  have tw: "filter (\<lambda>p. fst p = n) (takeWhile ?P ?ps) = []"
    by (induction ?ps) (auto simp: filter_empty_conv dest: set_takeWhileD)
  have tw2: "filter ?P (takeWhile ?P ?ps) = takeWhile ?P ?ps"
    by (auto simp: filter_id_conv dest: set_takeWhileD)
  have split: "?ps = takeWhile ?P ?ps @ dropWhile ?P ?ps"
    by simp
  show ?thesis
  proof (cases "list_ex (\<lambda>p. fst p = n) ?ps")
    case False
    then have "\<forall>p \<in> set ?ps. fst p \<noteq> n"
      by (simp add: list_ex_iff)
    then show ?thesis
      using False by (simp add: searchParams_set_def Let_def filter_empty_conv)
  next
    case True
    then have "dropWhile ?P ?ps \<noteq> []"
      by (auto simp: list_ex_iff dropWhile_eq_Nil_conv)
    then obtain q rest where dw: "dropWhile ?P ?ps = q # rest"
      by (cases "dropWhile ?P ?ps") auto
    then have q: "fst q = n"
      using hd_dropWhile [of ?P ?ps] by auto
    have "filter ?P ?ps = takeWhile ?P ?ps @ filter ?P rest"
      by (subst split) (simp add: tw2 dw q del: takeWhile_dropWhile_id)
    then show ?thesis
      using True by (simp add: searchParams_set_def Let_def tw tw2 dw)
  qed
qed

lemma download_bad_url:
  "newURL E link = Inl m \<Longrightarrow> download E uv vcfg key link t = (Inl (DownloadFailed m), t, [])"
  by (simp add: download_def downloadTry_def newTypeError_def DownloadFailed_def)

lemma download_delegated_events:
  "\<not> aborted E t \<Longrightarrow> newURL E link = Inr u \<Longrightarrow>
   events (download E True (Some vc) key link t) =
     [EvFetch u [(lit ''Authorization'', lit ''Bearer '' @ trim (accessToken vc))] None]"
  by (auto simp: download_def downloadTry_def readResponse_def fetch_call_def blob_call_def
      prepend_def Let_def split: sum.splits prod.splits)

lemma download_direct_events:
  "\<not> aborted E t \<Longrightarrow> newURL E link = Inr u \<Longrightarrow> sanitizeKey (resolvedKey E key) = Some k \<Longrightarrow>
   k \<noteq> [] \<Longrightarrow>
   events (download E False vcfg key link t) =
     [EvFetch (searchParams_set (lit ''key'') k u) [] (Some omit)]"
  by (auto simp: download_def downloadTry_def readResponse_def fetch_call_def blob_call_def
      prepend_def Let_def resolvedKey_eq truthy_def split: sum.splits prod.splits)

lemma download_refused:
  "\<not> aborted E (Suc t) \<Longrightarrow> newURL E link = Inr u \<Longrightarrow> fetch E t = Inr response \<Longrightarrow>
   \<not> ok response \<Longrightarrow>
   outcome (download E uv vcfg key link t) =
     Inl (DownloadFailed (lit ''Download failed: '' @ statusText response))"
  using aborted_mono [of E "Suc t" t] not_aborted_abortAt [of E "Suc t" t]
  by (auto simp: download_def downloadTry_def readResponse_def fetch_call_def
      DownloadFailed_def newError_def Let_def)


text \<open>
  C8, as amended. With usingVertex the trimmed access token is sent as a Bearer
  authorization header and the URL fetched is the parsed locator, unchanged; otherwise
  the sanitised key is set as the query parameter \<open>key\<close> of the parsed locator (once,
  the other parameters kept), no header is added and the fetch is made with credentials
  \<open>omit\<close>. A response that is not ok ends the download with DownloadFailed carrying
  its status text. A locator the platform does not parse as a URL ends the download with
  DownloadFailed carrying the parser's message, and nothing is fetched.
\<close>

theorem download_credentials:
  "(\<not> aborted E t \<longrightarrow> newURL E link = Inr u \<longrightarrow>
      fetched (events (download E True (Some vc) key link t)) =
        [(u, [(lit ''Authorization'', lit ''Bearer '' @ trim (accessToken vc))], None)]) \<and>
   (\<not> aborted E t \<longrightarrow> newURL E link = Inr u \<longrightarrow> sanitizeKey (resolvedKey E key) = Some k \<longrightarrow>
    k \<noteq> [] \<longrightarrow>
      fetched (events (download E False vcfg key link t)) =
        [(searchParams_set (lit ''key'') k u, [], Some omit)] \<and>
      filter (\<lambda>p. fst p = lit ''key'') (searchParams (searchParams_set (lit ''key'') k u)) =
        [(lit ''key'', k)] \<and>
      filter (\<lambda>p. fst p \<noteq> lit ''key'') (searchParams (searchParams_set (lit ''key'') k u)) =
        filter (\<lambda>p. fst p \<noteq> lit ''key'') (searchParams u) \<and>
      base_url (searchParams_set (lit ''key'') k u) = base_url u) \<and>
   (\<not> aborted E (Suc t) \<longrightarrow> newURL E link = Inr u \<longrightarrow> fetch E t = Inr response \<longrightarrow>
    \<not> ok response \<longrightarrow>
      outcome (download E usingVertex vcfg key link t) =
        Inl (DownloadFailed (lit ''Download failed: '' @ statusText response))) \<and>
   (newURL E link = Inl m \<longrightarrow>
      download E usingVertex vcfg key link t = (Inl (DownloadFailed m), t, []))"
  using download_delegated_events [of E t link u vc key]
    download_direct_events [of E t link u key k vcfg]
    searchParams_set_key [of "lit ''key''" k u]
    download_refused [of E t link u response usingVertex vcfg key]
    download_bad_url [of E link m usingVertex vcfg key t]
  by simp

lemma download_demo_facts:
  "\<not> aborted calmEnv 0" "\<not> aborted refusedEnv (Suc 0)"
  "newURL calmEnv (lit ''https://video.example/1'') =
     Inr \<lparr>base_url = lit ''https://video.example/1'', searchParams = []\<rparr>"
  "newURL refusedEnv (lit ''https://video.example/1'') =
     Inr \<lparr>base_url = lit ''https://video.example/1'', searchParams = []\<rparr>"
  "sanitizeKey (resolvedKey calmEnv (Some (lit '' \"KEY\" ''))) = Some (lit ''KEY'')"
  "fetch refusedEnv 0 = Inr \<lparr>ok = False, statusText = lit ''Forbidden''\<rparr>"
  "newURL badUrlEnv (lit ''video?id=1'') = Inl (lit ''Invalid URL'')"
  "trim (accessToken demoVertex) = lit ''ya29''"
  "searchParams_set (lit ''key'') (lit ''KEY'')
     \<lparr>base_url = lit ''https://video.example/1'', searchParams = []\<rparr> =
     \<lparr>base_url = lit ''https://video.example/1'', searchParams = [(lit ''key'', lit ''KEY'')]\<rparr>"
proof -
  show "\<not> aborted calmEnv 0" "\<not> aborted refusedEnv (Suc 0)"
    by (simp_all add: aborted_def refusedEnv_def calmEnv_def)
  show "newURL calmEnv (lit ''https://video.example/1'') =
     Inr \<lparr>base_url = lit ''https://video.example/1'', searchParams = []\<rparr>"
    "newURL refusedEnv (lit ''https://video.example/1'') =
     Inr \<lparr>base_url = lit ''https://video.example/1'', searchParams = []\<rparr>"
    "fetch refusedEnv 0 = Inr \<lparr>ok = False, statusText = lit ''Forbidden''\<rparr>"
    by (simp_all add: refusedEnv_def calmEnv_def)
  show "newURL badUrlEnv (lit ''video?id=1'') = Inl (lit ''Invalid URL'')"
    by code_simp
  show "sanitizeKey (resolvedKey calmEnv (Some (lit '' \"KEY\" ''))) = Some (lit ''KEY'')"
    by code_simp
  show "trim (accessToken demoVertex) = lit ''ya29''"
    by code_simp
  show "searchParams_set (lit ''key'') (lit ''KEY'')
     \<lparr>base_url = lit ''https://video.example/1'', searchParams = []\<rparr> =
     \<lparr>base_url = lit ''https://video.example/1'', searchParams = [(lit ''key'', lit ''KEY'')]\<rparr>"
    by (simp add: searchParams_set_def)
qed

theorem download_credentials_witness:
  "fetched (events (download calmEnv True (Some demoVertex) None (lit ''https://video.example/1'') 0)) =
     [(\<lparr>base_url = lit ''https://video.example/1'', searchParams = []\<rparr>,
       [(lit ''Authorization'', lit ''Bearer ya29'')], None)] \<and>
   fetched (events (download calmEnv False None (Some (lit '' \"KEY\" '')) (lit ''https://video.example/1'') 0)) =
     [(\<lparr>base_url = lit ''https://video.example/1'', searchParams = [(lit ''key'', lit ''KEY'')]\<rparr>,
       [], Some omit)] \<and>
   outcome (download refusedEnv False None (Some (lit ''KEY'')) (lit ''https://video.example/1'') 0) =
     Inl (DownloadFailed (lit ''Download failed: Forbidden'')) \<and>
   download badUrlEnv False None (Some (lit ''KEY'')) (lit ''video?id=1'') 0 =
     (Inl (DownloadFailed (lit ''Invalid URL'')), 0, [])"
proof -
  let ?link = "lit ''https://video.example/1''"
  let ?u = "\<lparr>base_url = ?link, searchParams = []\<rparr>"
  have a: "fetched (events (download calmEnv True (Some demoVertex) None ?link 0)) =
     [(?u, [(lit ''Authorization'', lit ''Bearer ya29'')], None)]"
    using download_credentials [where E = calmEnv and t = 0 and link = ?link and u = ?u
        and vc = demoVertex and key = None] download_demo_facts(1,3,8)
    by (simp add: lit_append [symmetric])
  have b: "fetched (events (download calmEnv False None (Some (lit '' \"KEY\" '')) ?link 0)) =
     [(\<lparr>base_url = ?link, searchParams = [(lit ''key'', lit ''KEY'')]\<rparr>, [], Some omit)]"
    using download_credentials [where E = calmEnv and t = 0 and link = ?link and u = ?u
        and key = "Some (lit '' \"KEY\" '')" and k = "lit ''KEY''" and vcfg = None]
      download_demo_facts(1,3,5,9)
    by simp
  have c: "outcome (download refusedEnv False None (Some (lit ''KEY'')) ?link 0) =
     Inl (DownloadFailed (lit ''Download failed: Forbidden''))"
    using download_credentials [where E = refusedEnv and t = 0 and link = ?link and u = ?u
        and response = "\<lparr>ok = False, statusText = lit ''Forbidden''\<rparr>" and usingVertex = False
        and vcfg = None and key = "Some (lit ''KEY'')"]
      download_demo_facts(2,4,6)
    by (simp add: lit_append [symmetric])
  have d: "download badUrlEnv False None (Some (lit ''KEY'')) (lit ''video?id=1'') 0 =
     (Inl (DownloadFailed (lit ''Invalid URL'')), 0, [])"
    using download_credentials [where E = badUrlEnv and link = "lit ''video?id=1''"
        and m = "lit ''Invalid URL''" and usingVertex = False and vcfg = None
        and key = "Some (lit ''KEY'')" and t = 0]
      download_demo_facts(7)
    by simp
  show ?thesis
    using a b c d by simp
qed

text \<open>
  The locator of the finished operation is the relative reference \<open>video?id=1\<close>, which
  the parser rejects. The run reaches the download, fetches nothing (in particular not
  \<open>video?id=1&key=KEY\<close>) and ends with DownloadFailed.
\<close>

theorem download_no_concatenation_fallback:
  "extractResult relativeOp = Inr (lit ''video?id=1'') \<and>
   outcome (generateVideo 0 badUrlEnv png demoConfig (Some (lit ''KEY'')) None 0) =
     Some (Inl (DownloadFailed (lit ''Invalid URL''))) \<and>
   last (events (generateVideo 0 badUrlEnv png demoConfig (Some (lit ''KEY'')) None 0)) =
     EvProgress (lit ''Downloading result...'') \<and>
   fetched (events (generateVideo 0 badUrlEnv png demoConfig (Some (lit ''KEY'')) None 0)) = []"
proof -
  have a: "extractResult relativeOp = Inr (lit ''video?id=1'')"
    by code_simp
  have b: "outcome (generateVideo 0 badUrlEnv png demoConfig (Some (lit ''KEY'')) None 0) =
     Some (Inl (DownloadFailed (lit ''Invalid URL'')))"
    by code_simp
  have c: "last (events (generateVideo 0 badUrlEnv png demoConfig (Some (lit ''KEY'')) None 0)) =
     EvProgress (lit ''Downloading result...'')"
    by code_simp
  have d: "fetched (events (generateVideo 0 badUrlEnv png demoConfig (Some (lit ''KEY'')) None 0)) = []"
    by code_simp
  show ?thesis
    using a b c d by simp
qed

section \<open>The queue processor: properties\<close>





















lemma tracked_fields [simp]:
  "tracked H0 J0 (w\<lparr>now := t\<rparr>) = tracked H0 J0 w"
  "tracked H0 J0 (w\<lparr>log := l\<rparr>) = tracked H0 J0 w"
  "tracked H0 J0 (w\<lparr>showSettings := b\<rparr>) = tracked H0 J0 w"
  "tracked H0 J0 (w\<lparr>isProcessing := b\<rparr>) = tracked H0 J0 w"
  by (simp_all add: tracked_def recorded_def)

lemma ended_fields [simp]:
  "ended H0 J0 (w\<lparr>isProcessing := b\<rparr>) = ended H0 J0 w"
  by (simp add: ended_def recorded_def)







lemma isProcessing_progress [simp]:
  "isProcessing (foldl (onProgress i) w evs) = isProcessing w"
proof (induction evs arbitrary: w)
  case Nil
  show ?case by simp
next
  case (Cons ev evs)
  have "isProcessing (onProgress i w ev) = isProcessing w"
    by (cases ev) (simp_all add: onProgress_def setJobs_def)
  then show ?case
    using Cons [of "onProgress i w ev"] by simp
qed

lemma isProcessing_setJobs [simp]: "isProcessing (setJobs f w) = isProcessing w"
  by (simp add: setJobs_def)






subsection \<open>A quiet environment never makes the driver fail with a cancellation\<close>



lemma quiet_not_aborted [simp]: "quiet E \<Longrightarrow> \<not> aborted E t"
  by (simp add: quiet_def aborted_def)





















text \<open>
  Nobody needs to press Stop for the cancellation branch to be taken: an error of the
  remote side whose message is "Aborted" is a cancellation for the queue processor.
\<close>

lemma remote_abort_taken_for_cancellation:
  "abortAt hungUpEnv = None \<and>
   summary (processQueue 0 hungUpEnv demoSettings demoApp) =
     ([(FAILED, Some (lit ''Cancelled'')), (FAILED, Some (lit ''Stopped by user'')),
       (FAILED, Some (lit ''Stopped by user''))], False, 1)"
proof -
  have a: "abortAt hungUpEnv = None"
    by (simp add: hungUpEnv_def calmEnv_def)
  have b: "summary (processQueue 0 hungUpEnv demoSettings demoApp) =
     ([(FAILED, Some (lit ''Cancelled'')), (FAILED, Some (lit ''Stopped by user'')),
       (FAILED, Some (lit ''Stopped by user''))], False, 1)"
    by code_simp
  show ?thesis
    using a b by (rule conjI)
qed

text \<open>
  C1. Stop pressed during a wait of the driver: the current job fails with "Cancelled",
  the pending ones with "Stopped by user", and the pass has made one submission. Stop
  pressed during the download: the rejection of \<open>fetch\<close> is wrapped by the \<open>catch\<close>
  around the download into an \<open>Error\<close> that the queue processor does not recognise as a
  cancellation; the current job fails with the download error, the loop is left at its
  next check of the signal, and the other jobs stay pending in a state where no pass is
  active, which is the state in which the application starts the next pass.
\<close>

theorem cancel_during_download_leaves_jobs_pending:
  "summary (processQueue 0 stoppedEnv demoSettings demoApp) =
     ([(FAILED, Some (lit ''Cancelled'')), (FAILED, Some (lit ''Stopped by user'')),
       (FAILED, Some (lit ''Stopped by user''))], False, 1) \<and>
   summary (processQueue 0 stoppedLateEnv demoSettings demoApp) =
     ([(FAILED, Some (lit ''Video download error: signal is aborted without reason'')),
       (PENDING, None), (PENDING, None)], False, 1)"
proof -
  have a: "summary (processQueue 0 stoppedEnv demoSettings demoApp) =
     ([(FAILED, Some (lit ''Cancelled'')), (FAILED, Some (lit ''Stopped by user'')),
       (FAILED, Some (lit ''Stopped by user''))], False, 1)"
    by code_simp
  have b: "summary (processQueue 0 stoppedLateEnv demoSettings demoApp) =
     ([(FAILED, Some (lit ''Video download error: signal is aborted without reason'')),
       (PENDING, None), (PENDING, None)], False, 1)"
    by code_simp
  show ?thesis
    using a b by (rule conjI)
qed

end
